theory Spec2Isabelle
  imports Main
begin

section \<open>JavaScript strings\<close>

text \<open>
  A JavaScript string is a sequence of UTF-16 code units; \<open>length\<close>, \<open>substring\<close> and a
  regular expression without the \<open>u\<close> flag all count and match code units. A string is
  therefore a list of code units, each a natural number. \<open>js\<close> turns an ASCII literal of
  the source into its code units.
\<close>

type_synonym jsstring = "nat list"

definition js :: "string \<Rightarrow> jsstring" where
  "js s = map of_char s"

section \<open>The name sanitizer of \<open>handler\<close>\<close>

text \<open>
  Both variants of \<open>api/deploy.js\<close> compute
  \<^verbatim>\<open>projectName.toLowerCase().replace(/[^a-z0-9-]/g, '-').replace(/-+/g, '-').substring(0, 50)\<close>.

  \<open>String.prototype.toLowerCase\<close> is a builtin of the runtime. On a string of ASCII code
  units it maps \<open>A\<close>..\<open>Z\<close> to \<open>a\<close>..\<open>z\<close> and keeps every other code unit; on any other
  string it applies the Unicode case conversion, which is not part of the repository and
  is the parameter \<open>uni\<close> here.
\<close>

definition lowerAscii :: "nat \<Rightarrow> nat" where
  "lowerAscii c = (if 65 \<le> c \<and> c \<le> 90 then c + 32 else c)"

definition toLowerCase :: "(jsstring \<Rightarrow> jsstring) \<Rightarrow> jsstring \<Rightarrow> jsstring" where
  "toLowerCase uni s = (if list_all (\<lambda>c. c < 128) s then map lowerAscii s else uni s)"

text \<open>The character class \<open>[a-z0-9-]\<close>.\<close>

definition validChar :: "nat \<Rightarrow> bool" where
  "validChar c = ((97 \<le> c \<and> c \<le> 122) \<or> (48 \<le> c \<and> c \<le> 57) \<or> c = 45)"

text \<open>\<^verbatim>\<open>.replace(/[^a-z0-9-]/g, '-')\<close>: every code unit outside the class becomes \<open>-\<close>.\<close>

definition replaceInvalid :: "jsstring \<Rightarrow> jsstring" where
  "replaceInvalid s = map (\<lambda>c. if validChar c then c else 45) s"

text \<open>\<^verbatim>\<open>.replace(/-+/g, '-')\<close>: every maximal run of \<open>-\<close> becomes one \<open>-\<close>.\<close>

fun collapseDashes :: "jsstring \<Rightarrow> jsstring" where
  "collapseDashes [] = []"
| "collapseDashes [c] = [c]"
| "collapseDashes (a # b # r) =
     (if a = 45 \<and> b = 45 then collapseDashes (b # r) else a # collapseDashes (b # r))"

text \<open>
  \<^verbatim>\<open>.substring(start, end)\<close>: both indices are clamped to the length and swapped when
  \<open>start > end\<close>.
\<close>

definition substring :: "jsstring \<Rightarrow> nat \<Rightarrow> nat \<Rightarrow> jsstring" where
  "substring s start end =
     (let a = min start (length s); b = min end (length s);
          lo = min a b; hi = max a b
      in take (hi - lo) (drop lo s))"

definition cleanProjectName :: "(jsstring \<Rightarrow> jsstring) \<Rightarrow> jsstring \<Rightarrow> jsstring" where
  "cleanProjectName uni projectName =
     substring (collapseDashes (replaceInvalid (toLowerCase uni projectName))) 0 50"

text \<open>A string with no two consecutive \<open>-\<close>.\<close>

fun noDoubleDash :: "jsstring \<Rightarrow> bool" where
  "noDoubleDash [] = True"
| "noDoubleDash [c] = True"
| "noDoubleDash (a # b # r) = (\<not> (a = 45 \<and> b = 45) \<and> noDoubleDash (b # r))"

section \<open>Values of the runtime\<close>

text \<open>
  The handler reads string-valued properties of objects: of the request body and of the
  JSON objects the platform answers with. Such an object is a map from property names to
  strings; \<open>None\<close> is \<open>undefined\<close> (the property is absent). The platform may return more
  properties; the code reads none of them.
\<close>

type_synonym jsobject = "string \<Rightarrow> jsstring option"

text \<open>A string is falsy exactly when it is \<open>undefined\<close> or empty.\<close>

definition truthy :: "jsstring option \<Rightarrow> bool" where
  "truthy v = (case v of None \<Rightarrow> False | Some s \<Rightarrow> s \<noteq> [])"

text \<open>\<^verbatim>\<open>a || b\<close> for a string-or-undefined \<open>a\<close> and a string \<open>b\<close>.\<close>

definition orElse :: "jsstring option \<Rightarrow> jsstring \<Rightarrow> jsstring" where
  "orElse v d = (case v of None \<Rightarrow> d | Some s \<Rightarrow> (if s = [] then d else s))"

text \<open>A value inside a template literal: \<open>undefined\<close> renders as the word.\<close>

definition tpl :: "jsstring option \<Rightarrow> jsstring" where
  "tpl v = (case v of None \<Rightarrow> js ''undefined'' | Some s \<Rightarrow> s)"

text \<open>A non-negative integer inside a template literal: its decimal digits.\<close>

function showNat :: "nat \<Rightarrow> jsstring" where
  "showNat n = (if n < 10 then [48 + n] else showNat (n div 10) @ [48 + n mod 10])"
  by pat_completeness auto
termination
  by (relation "measure (\<lambda>n. n)") auto

text \<open>\<^verbatim>\<open>s.includes(sub)\<close>: \<open>sub\<close> occurs in \<open>s\<close> as a contiguous run.\<close>

fun includes_js :: "jsstring \<Rightarrow> jsstring \<Rightarrow> bool" where
  "includes_js [] sub = (sub = [])"
| "includes_js (c # s) sub = (take (length sub) (c # s) = sub \<or> includes_js s sub)"

text \<open>
  \<^verbatim>\<open>Buffer.from(s)\<close> encodes the code units as UTF-8 bytes: a surrogate pair is one code
  point of four bytes, an unpaired surrogate becomes U+FFFD.
\<close>

fun utf8 :: "jsstring \<Rightarrow> nat list" where
  "utf8 [] = []"
| "utf8 (c # r) =
     (if c < 0x80 then c # utf8 r
      else if c < 0x800 then (0xC0 + c div 64) # (0x80 + c mod 64) # utf8 r
      else if 0xD800 \<le> c \<and> c \<le> 0xDBFF then
        (case r of
           [] \<Rightarrow> [0xEF, 0xBF, 0xBD]
         | d # r' \<Rightarrow>
             if 0xDC00 \<le> d \<and> d \<le> 0xDFFF then
               (let cp = 0x10000 + (c - 0xD800) * 1024 + (d - 0xDC00)
                in [0xF0 + cp div 262144, 0x80 + (cp div 4096) mod 64,
                    0x80 + (cp div 64) mod 64, 0x80 + cp mod 64] @ utf8 r')
             else [0xEF, 0xBF, 0xBD] @ utf8 r)
      else if 0xDC00 \<le> c \<and> c \<le> 0xDFFF then [0xEF, 0xBF, 0xBD] @ utf8 r
      else [0xE0 + c div 4096, 0x80 + (c div 64) mod 64, 0x80 + c mod 64] @ utf8 r)"

text \<open>\<^verbatim>\<open>.toString('base64')\<close>: the standard alphabet, padded with \<open>=\<close>.\<close>

definition b64char :: "nat \<Rightarrow> nat" where
  "b64char i =
     (if i < 26 then 65 + i else if i < 52 then 97 + (i - 26)
      else if i < 62 then 48 + (i - 52) else if i = 62 then 43 else 47)"

fun base64 :: "nat list \<Rightarrow> jsstring" where
  "base64 [] = []"
| "base64 [a] = [b64char (a div 4), b64char ((a mod 4) * 16), 61, 61]"
| "base64 [a, b] =
     [b64char (a div 4), b64char ((a mod 4) * 16 + b div 16), b64char ((b mod 16) * 4), 61]"
| "base64 (a # b # c # r) =
     [b64char (a div 4), b64char ((a mod 4) * 16 + b div 16),
      b64char ((b mod 16) * 4 + c div 64), b64char (c mod 64)] @ base64 r"

text \<open>
  An object literal handed to \<open>JSON.stringify\<close> as a request body: the model keeps the
  object, not its serialisation.
\<close>

datatype jsvalue =
    Undefined
  | Null
  | Str jsstring
  | Arr "jsvalue list"
  | Obj "(string \<times> jsvalue) list"

definition strOrUndefined :: "jsstring option \<Rightarrow> jsvalue" where
  "strOrUndefined v = (case v of None \<Rightarrow> Undefined | Some s \<Rightarrow> Str s)"

section \<open>The platform behind \<open>fetch\<close>\<close>

record request =
  fmethod :: string
  url :: jsstring
  headers :: "(string \<times> jsstring) list"
  body :: "jsvalue option"

text \<open>
  A response: its status, what \<open>text()\<close> resolves to, and what \<open>json()\<close> does: \<open>Inl m\<close>
  when it rejects with an error of message \<open>m\<close> (the body is not JSON), \<open>Inr obj\<close> when it
  resolves to the object \<open>obj\<close>.
\<close>

record response =
  status :: nat
  text_of :: jsstring
  json_of :: "jsstring + jsobject"

definition ok :: "response \<Rightarrow> bool" where
  "ok r = (200 \<le> status r \<and> status r \<le> 299)"

text \<open>\<open>fetch\<close> either rejects with an error of some message or resolves to a response.\<close>

datatype fetch_result = Rejected jsstring | Responded response

text \<open>
  What the handler does to the outside world, in order: the requests it sends and the
  timers it waits for (\<open>setTimeout\<close>, in milliseconds). Console output is left out.
\<close>

datatype event = Fetch request | Sleep nat

fun isFetch :: "event \<Rightarrow> bool" where
  "isFetch (Fetch r) = True"
| "isFetch (Sleep ms) = False"

definition fetchCount :: "event list \<Rightarrow> nat" where
  "fetchCount tr = length (filter isFetch tr)"

text \<open>
  The platform is any function that answers the \<open>n\<close>-th request of an invocation
  (counted from 0), given the request.
\<close>

type_synonym platform = "nat \<Rightarrow> request \<Rightarrow> fetch_result"

definition fetch :: "platform \<Rightarrow> request \<Rightarrow> event list \<Rightarrow> fetch_result \<times> event list" where
  "fetch plat req tr = (plat (fetchCount tr) req, tr @ [Fetch req])"

definition bearer :: "jsstring option \<Rightarrow> string \<times> jsstring" where
  "bearer token = (''Authorization'', js ''Bearer '' @ tpl token)"

section \<open>\<open>createOrGetProject\<close>\<close>

definition createProjectRequest :: "jsstring option \<Rightarrow> jsstring \<Rightarrow> request" where
  "createProjectRequest token projectName =
     \<lparr> fmethod = ''POST'',
       url = js ''https://api.vercel.com/v9/projects'',
       headers = [bearer token, (''Content-Type'', js ''application/json'')],
       body = Some (Obj [(''name'', Str projectName),
                         (''framework'', Str (js ''static'')),
                         (''buildCommand'', Null),
                         (''outputDirectory'', Null),
                         (''installCommand'', Null)]) \<rparr>"

definition getProjectRequest :: "jsstring option \<Rightarrow> jsstring \<Rightarrow> request" where
  "getProjectRequest token projectName =
     \<lparr> fmethod = ''GET'',
       url = js ''https://api.vercel.com/v9/projects/'' @ projectName,
       headers = [bearer token],
       body = None \<rparr>"

text \<open>The \<open>try\<close> block of \<open>createOrGetProject\<close> (first variant).\<close>

definition createOrGetProject_try ::
  "platform \<Rightarrow> jsstring option \<Rightarrow> jsstring \<Rightarrow> event list \<Rightarrow> (jsstring + jsobject) \<times> event list" where
  "createOrGetProject_try plat token projectName tr =
     (case fetch plat (createProjectRequest token projectName) tr of
        (Rejected m, tr1) \<Rightarrow> (Inl m, tr1)
      | (Responded createResponse, tr1) \<Rightarrow>
          if ok createResponse then (json_of createResponse, tr1)
          else
            let failed = Inl (js ''Failed to create/get project: ''
                              @ showNat (status createResponse) @ js '' - ''
                              @ text_of createResponse)
            in if status createResponse = 409 then
                 (case fetch plat (getProjectRequest token projectName) tr1 of
                    (Rejected m, tr2) \<Rightarrow> (Inl m, tr2)
                  | (Responded getResponse, tr2) \<Rightarrow>
                      if ok getResponse then (json_of getResponse, tr2)
                      else (failed, tr2))
               else (failed, tr1))"

text \<open>The \<open>catch\<close> rethrows every error with a prefix.\<close>

definition createOrGetProject ::
  "platform \<Rightarrow> jsstring option \<Rightarrow> jsstring \<Rightarrow> event list \<Rightarrow> (jsstring + jsobject) \<times> event list" where
  "createOrGetProject plat token projectName tr =
     (case createOrGetProject_try plat token projectName tr of
        (Inl m, tr1) \<Rightarrow> (Inl (js ''Project handling failed: '' @ m), tr1)
      | (Inr project, tr1) \<Rightarrow> (Inr project, tr1))"

text \<open>The second variant sends no command fields and reports the status only.\<close>

definition createProjectRequest_v2 :: "jsstring option \<Rightarrow> jsstring \<Rightarrow> request" where
  "createProjectRequest_v2 token projectName =
     \<lparr> fmethod = ''POST'',
       url = js ''https://api.vercel.com/v9/projects'',
       headers = [bearer token, (''Content-Type'', js ''application/json'')],
       body = Some (Obj [(''name'', Str projectName),
                         (''framework'', Str (js ''static''))]) \<rparr>"

definition createOrGetProject_v2_try ::
  "platform \<Rightarrow> jsstring option \<Rightarrow> jsstring \<Rightarrow> event list \<Rightarrow> (jsstring + jsobject) \<times> event list" where
  "createOrGetProject_v2_try plat token projectName tr =
     (case fetch plat (createProjectRequest_v2 token projectName) tr of
        (Rejected m, tr1) \<Rightarrow> (Inl m, tr1)
      | (Responded createResponse, tr1) \<Rightarrow>
          if ok createResponse then (json_of createResponse, tr1)
          else
            let failed = Inl (js ''Failed to create/get project: ''
                              @ showNat (status createResponse))
            in if status createResponse = 409 then
                 (case fetch plat (getProjectRequest token projectName) tr1 of
                    (Rejected m, tr2) \<Rightarrow> (Inl m, tr2)
                  | (Responded getResponse, tr2) \<Rightarrow>
                      if ok getResponse then (json_of getResponse, tr2)
                      else (failed, tr2))
               else (failed, tr1))"

definition createOrGetProject_v2 ::
  "platform \<Rightarrow> jsstring option \<Rightarrow> jsstring \<Rightarrow> event list \<Rightarrow> (jsstring + jsobject) \<times> event list" where
  "createOrGetProject_v2 plat token projectName tr =
     (case createOrGetProject_v2_try plat token projectName tr of
        (Inl m, tr1) \<Rightarrow> (Inl (js ''Project creation failed: '' @ m), tr1)
      | (Inr project, tr1) \<Rightarrow> (Inr project, tr1))"

section \<open>\<open>createDeployment\<close>\<close>

text \<open>
  The generated page. It embeds \<open>siteName\<close>, \<open>project.name\<close> and
  \<^verbatim>\<open>new Date().toLocaleString('id-ID')\<close>; the rendered date is the parameter \<open>now\<close>.
  The rocket and the check mark of the source are written as their code units.
\<close>

definition htmlContent :: "jsstring \<Rightarrow> jsobject \<Rightarrow> jsstring \<Rightarrow> jsstring" where
  \<open>htmlContent siteName project now = concat [
     js ''\<newline>'',
     js ''<!DOCTYPE html>\<newline>'',
     js ''<html lang="id">\<newline>'',
     js ''<head>\<newline>'',
     js ''    <meta charset="UTF-8">\<newline>'',
     js ''    <meta name="viewport" content="width=device-width, initial-scale=1.0">\<newline>'',
     js ''    <title>'', siteName, js ''</title>\<newline>'',
     js ''    <style>\<newline>'',
     js ''        * { margin: 0; padding: 0; box-sizing: border-box; }\<newline>'',
     js ''        body { \<newline>'',
     js ''            font-family: 'Segoe UI', Tahoma, Geneva, Verdana, sans-serif;\<newline>'',
     js ''            background: linear-gradient(135deg, #667eea 0%, #764ba2 100%);\<newline>'',
     js ''            min-height: 100vh;\<newline>'',
     js ''            display: flex;\<newline>'',
     js ''            align-items: center;\<newline>'',
     js ''            justify-content: center;\<newline>'',
     js ''            color: white;\<newline>'',
     js ''            text-align: center;\<newline>'',
     js ''            padding: 20px;\<newline>'',
     js ''        }\<newline>'',
     js ''        .container {\<newline>'',
     js ''            background: rgba(255,255,255,0.1);\<newline>'',
     js ''            backdrop-filter: blur(10px);\<newline>'',
     js ''            padding: 50px;\<newline>'',
     js ''            border-radius: 20px;\<newline>'',
     js ''            box-shadow: 0 20px 40px rgba(0,0,0,0.1);\<newline>'',
     js ''            max-width: 600px;\<newline>'',
     js ''        }\<newline>'',
     js ''        h1 { \<newline>'',
     js ''            font-size: 3em; \<newline>'',
     js ''            margin-bottom: 20px;\<newline>'',
     js ''            background: linear-gradient(135deg, #fff, #e2e8f0);\<newline>'',
     js ''            -webkit-background-clip: text;\<newline>'',
     js ''            -webkit-text-fill-color: transparent;\<newline>'',
     js ''        }\<newline>'',
     js ''        p { \<newline>'',
     js ''            font-size: 1.3em; \<newline>'',
     js ''            margin-bottom: 15px;\<newline>'',
     js ''            opacity: 0.9;\<newline>'',
     js ''        }\<newline>'',
     js ''        .deploy-info {\<newline>'',
     js ''            background: rgba(255,255,255,0.2);\<newline>'',
     js ''            padding: 20px;\<newline>'',
     js ''            border-radius: 10px;\<newline>'',
     js ''            margin-top: 30px;\<newline>'',
     js ''        }\<newline>'',
     js ''    </style>\<newline>'',
     js ''</head>\<newline>'',
     js ''<body>\<newline>'',
     js ''    <div class="container">\<newline>'',
     js ''        <h1>'', [0xd83d, 0xde80], js '' '', siteName, js ''</h1>\<newline>'',
     js ''        <p>Selamat! Website Anda berhasil di-deploy!</p>\<newline>'',
     js ''        <p>Dibuat dengan <strong>Vercel Instant Deployer</strong></p>\<newline>'',
     js ''        \<newline>'',
     js ''        <div class="deploy-info">\<newline>'',
     js ''            <p><strong>Project:</strong> '', tpl (project ''name''), js ''</p>\<newline>'',
     js ''            <p><strong>Deployment Date:</strong> '', now, js ''</p>\<newline>'',
     js ''            <p><strong>Status:</strong> '', [0x2705], js '' Live & Ready</p>\<newline>'',
     js ''        </div>\<newline>'',
     js ''        \<newline>'',
     js ''        <p style="margin-top: 30px; font-size: 1em; opacity: 0.7;">\<newline>'',
     js ''            Upload file HTML, CSS, dan JS Anda melalui Vercel Instant Deployer untuk mengganti halaman ini.\<newline>'',
     js ''        </p>\<newline>'',
     js ''    </div>\<newline>'',
     js ''</body>\<newline>'',
     js ''</html>\<newline>'',
     js ''    '']\<close>

definition deploymentPayload :: "jsobject \<Rightarrow> jsstring \<Rightarrow> jsvalue" where
  "deploymentPayload project html =
     Obj [(''name'', strOrUndefined (project ''name'')),
          (''project'', strOrUndefined (project ''id'')),
          (''target'', Str (js ''production'')),
          (''files'', Arr [Obj [(''file'', Str (js ''index.html'')),
                               (''data'', Str (base64 (utf8 html))),
                               (''encoding'', Str (js ''base64''))]]),
          (''framework'', Str (js ''static'')),
          (''buildCommand'', Null),
          (''outputDirectory'', Null),
          (''installCommand'', Null)]"

definition deploymentRequest :: "jsstring option \<Rightarrow> jsvalue \<Rightarrow> request" where
  "deploymentRequest token payload =
     \<lparr> fmethod = ''POST'',
       url = js ''https://api.vercel.com/v13/deployments'',
       headers = [bearer token, (''Content-Type'', js ''application/json'')],
       body = Some payload \<rparr>"

definition createDeployment_try ::
  "platform \<Rightarrow> jsstring option \<Rightarrow> jsstring \<Rightarrow> jsobject \<Rightarrow> jsstring \<Rightarrow> event list
     \<Rightarrow> (jsstring + jsobject) \<times> event list" where
  "createDeployment_try plat token now project siteName tr =
     (case fetch plat
             (deploymentRequest token
                (deploymentPayload project (htmlContent siteName project now))) tr of
        (Rejected m, tr1) \<Rightarrow> (Inl m, tr1)
      | (Responded deploymentResponse, tr1) \<Rightarrow>
          if \<not> ok deploymentResponse then
            (Inl (js ''Deployment creation failed: ''
                  @ showNat (status deploymentResponse) @ js '' - ''
                  @ text_of deploymentResponse), tr1)
          else (json_of deploymentResponse, tr1))"

definition createDeployment ::
  "platform \<Rightarrow> jsstring option \<Rightarrow> jsstring \<Rightarrow> jsobject \<Rightarrow> jsstring \<Rightarrow> event list
     \<Rightarrow> (jsstring + jsobject) \<times> event list" where
  "createDeployment plat token now project siteName tr =
     (case createDeployment_try plat token now project siteName tr of
        (Inl m, tr1) \<Rightarrow> (Inl (js ''Deployment failed: '' @ m), tr1)
      | (Inr deployment, tr1) \<Rightarrow> (Inr deployment, tr1))"

text \<open>The second variant: a shorter page, no command fields, no \<open>try\<close>.\<close>

definition htmlContent_v2 :: "jsstring \<Rightarrow> jsobject \<Rightarrow> jsstring \<Rightarrow> jsstring" where
  \<open>htmlContent_v2 siteName project now = concat [
     js ''\<newline>'',
     js ''<!DOCTYPE html>\<newline>'',
     js ''<html>\<newline>'',
     js ''<head>\<newline>'',
     js ''    <title>'', siteName, js ''</title>\<newline>'',
     js ''    <style>\<newline>'',
     js ''        body { \<newline>'',
     js ''            font-family: Arial, sans-serif; \<newline>'',
     js ''            margin: 40px; \<newline>'',
     js ''            background: linear-gradient(135deg, #667eea, #764ba2);\<newline>'',
     js ''            color: white;\<newline>'',
     js ''            text-align: center;\<newline>'',
     js ''        }\<newline>'',
     js ''        .container {\<newline>'',
     js ''            background: rgba(255,255,255,0.1);\<newline>'',
     js ''            padding: 40px;\<newline>'',
     js ''            border-radius: 15px;\<newline>'',
     js ''            backdrop-filter: blur(10px);\<newline>'',
     js ''            max-width: 600px;\<newline>'',
     js ''            margin: 0 auto;\<newline>'',
     js ''        }\<newline>'',
     js ''    </style>\<newline>'',
     js ''</head>\<newline>'',
     js ''<body>\<newline>'',
     js ''    <div class="container">\<newline>'',
     js ''        <h1>'', [0xd83d, 0xde80], js '' '', siteName, js ''</h1>\<newline>'',
     js ''        <p>Successfully deployed with Vercel Instant Deployer!</p>\<newline>'',
     js ''        <p>Project: '', tpl (project ''name''), js ''</p>\<newline>'',
     js ''        <p>Deployment Date: '', now, js ''</p>\<newline>'',
     js ''    </div>\<newline>'',
     js ''</body>\<newline>'',
     js ''</html>\<newline>'',
     js ''  '']\<close>

definition deploymentPayload_v2 :: "jsobject \<Rightarrow> jsstring \<Rightarrow> jsvalue" where
  "deploymentPayload_v2 project html =
     Obj [(''name'', strOrUndefined (project ''name'')),
          (''project'', strOrUndefined (project ''id'')),
          (''target'', Str (js ''production'')),
          (''files'', Arr [Obj [(''file'', Str (js ''index.html'')),
                               (''data'', Str (base64 (utf8 html))),
                               (''encoding'', Str (js ''base64''))]]),
          (''framework'', Str (js ''static''))]"

definition createDeployment_v2 ::
  "platform \<Rightarrow> jsstring option \<Rightarrow> jsstring \<Rightarrow> jsobject \<Rightarrow> jsstring \<Rightarrow> event list
     \<Rightarrow> (jsstring + jsobject) \<times> event list" where
  "createDeployment_v2 plat token now project siteName tr =
     (case fetch plat
             (deploymentRequest token
                (deploymentPayload_v2 project (htmlContent_v2 siteName project now))) tr of
        (Rejected m, tr1) \<Rightarrow> (Inl m, tr1)
      | (Responded deploymentResponse, tr1) \<Rightarrow>
          if \<not> ok deploymentResponse then
            (Inl (js ''Deployment failed: '' @ text_of deploymentResponse), tr1)
          else (json_of deploymentResponse, tr1))"

section \<open>\<open>waitForDeploymentReady\<close>\<close>

definition statusRequest :: "jsstring option \<Rightarrow> jsstring option \<Rightarrow> request" where
  "statusRequest token deploymentId =
     \<lparr> fmethod = ''GET'',
       url = js ''https://api.vercel.com/v13/deployments/'' @ tpl deploymentId,
       headers = [bearer token],
       body = None \<rparr>"

text \<open>
  How the \<open>try\<close> block of one loop iteration ends: with \<open>return\<close>, with a thrown error
  (which the \<open>catch\<close> of the same iteration receives), with \<open>continue\<close> (which leaves the
  \<open>try\<close> without entering the \<open>catch\<close>), or by reaching its end after the timer.
\<close>

datatype completion = Returned jsstring | Thrown jsstring | Continued | Completed

definition waitAttempt_try ::
  "platform \<Rightarrow> jsstring option \<Rightarrow> jsstring option \<Rightarrow> event list \<Rightarrow> completion \<times> event list" where
  "waitAttempt_try plat token deploymentId tr =
     (case fetch plat (statusRequest token deploymentId) tr of
        (Rejected m, tr1) \<Rightarrow> (Thrown m, tr1)
      | (Responded statusResponse, tr1) \<Rightarrow>
          if \<not> ok statusResponse then (Continued, tr1)
          else
            (case json_of statusResponse of
               Inl m \<Rightarrow> (Thrown m, tr1)
             | Inr deployment \<Rightarrow>
                 if deployment ''readyState'' = Some (js ''READY'') then
                   (Returned (js ''https://'' @ tpl (deployment ''url'')), tr1)
                 else if deployment ''readyState'' = Some (js ''ERROR'') then
                   (Thrown (js ''Deployment failed: ''
                            @ orElse (deployment ''errorMessage'') (js ''Unknown error'')), tr1)
                 else if deployment ''readyState'' = Some (js ''CANCELED'') then
                   (Thrown (js ''Deployment was canceled''), tr1)
                 else (Completed, tr1 @ [Sleep 2000])))"

text \<open>
  The \<open>for\<close> loop from the iteration \<open>attempt\<close> on, with the \<open>catch\<close> of each iteration and
  the \<open>throw\<close> after the loop.
\<close>

function waitLoop ::
  "platform \<Rightarrow> jsstring option \<Rightarrow> jsstring option \<Rightarrow> jsstring option \<Rightarrow> nat \<Rightarrow> nat
     \<Rightarrow> event list \<Rightarrow> (jsstring + jsstring) \<times> event list" where
  "waitLoop plat token deploymentId deploymentUrl maxAttempts attempt tr =
     (if attempt \<le> maxAttempts then
        (case waitAttempt_try plat token deploymentId tr of
           (Returned u, tr1) \<Rightarrow> (Inr u, tr1)
         | (Thrown m, tr1) \<Rightarrow>
             if attempt = maxAttempts then
               (if truthy deploymentUrl then (Inr (js ''https://'' @ tpl deploymentUrl), tr1)
                else (Inl (js ''Deployment timeout: '' @ m), tr1))
             else waitLoop plat token deploymentId deploymentUrl maxAttempts (attempt + 1) tr1
         | (Continued, tr1) \<Rightarrow>
             waitLoop plat token deploymentId deploymentUrl maxAttempts (attempt + 1) tr1
         | (Completed, tr1) \<Rightarrow>
             waitLoop plat token deploymentId deploymentUrl maxAttempts (attempt + 1) tr1)
      else (Inl (js ''Deployment timeout: Maximum attempts reached''), tr))"
  by pat_completeness auto
termination
  by (relation "measure (\<lambda>(plat, token, deploymentId, deploymentUrl, maxAttempts, attempt, tr).
                   maxAttempts + 1 - attempt)") auto

declare waitLoop.simps [simp del]

definition waitForDeploymentReady ::
  "platform \<Rightarrow> jsstring option \<Rightarrow> jsstring option \<Rightarrow> jsstring option \<Rightarrow> nat
     \<Rightarrow> event list \<Rightarrow> (jsstring + jsstring) \<times> event list" where
  "waitForDeploymentReady plat token deploymentId deploymentUrl maxAttempts tr =
     waitLoop plat token deploymentId deploymentUrl maxAttempts 1 tr"

section \<open>\<open>handler\<close>\<close>

text \<open>
  A value the handler reads from a property of \<open>req.body\<close>: \<open>undefined\<close> (the property is
  absent), a string, or any other value (\<open>null\<close>, a number, a boolean, an array, an
  object). Of such another value the handler uses two things only: whether it is truthy,
  and what a template literal renders it as. It has no method \<open>toLowerCase\<close>.
\<close>

datatype jsprop = Absent | StringValue jsstring | OtherValue bool jsstring

definition truthyProp :: "jsprop \<Rightarrow> bool" where
  "truthyProp v =
     (case v of Absent \<Rightarrow> False | StringValue s \<Rightarrow> s \<noteq> [] | OtherValue t r \<Rightarrow> t)"

text \<open>\<^verbatim>\<open>v || d\<close> for such a value \<open>v\<close> and a string \<open>d\<close>.\<close>

definition orElseProp :: "jsprop \<Rightarrow> jsstring \<Rightarrow> jsprop" where
  "orElseProp v d = (if truthyProp v then v else StringValue d)"

text \<open>Such a value inside a template literal.\<close>

definition render :: "jsprop \<Rightarrow> jsstring" where
  "render v =
     (case v of Absent \<Rightarrow> js ''undefined'' | StringValue s \<Rightarrow> s | OtherValue t r \<Rightarrow> r)"

record reqbody =
  body_projectName :: jsprop
  body_siteName :: jsprop

text \<open>
  The incoming request: its method, its \<open>content-type\<close> header and its body. \<open>req.body\<close>
  is \<open>None\<close> when it is \<open>undefined\<close> or \<open>null\<close>, and then
  \<^verbatim>\<open>const { projectName, siteName } = req.body\<close> throws a \<open>TypeError\<close>; of any other
  body the destructuring reads the two properties.
\<close>

record httpreq =
  reqMethod :: jsstring
  contentType :: "jsstring option"
  reqBody :: "reqbody option"

text \<open>
  The messages of the two \<open>TypeError\<close>s the runtime can throw inside the handler: for
  destructuring a body that is \<open>undefined\<close> or \<open>null\<close>, and for calling \<open>toLowerCase\<close> on a
  value that has no such method. The wording belongs to the runtime, not to the
  repository.
\<close>

record typeErrors =
  cannotDestructure :: jsstring
  notAFunction :: jsstring

text \<open>
  The JSON bodies the handler answers with: none (\<open>end()\<close>), \<^verbatim>\<open>{error}\<close>,
  \<^verbatim>\<open>{success: false, error}\<close>, and
  \<^verbatim>\<open>{success: true, url, projectId, deploymentId, projectName, siteName}\<close>.
\<close>

datatype resbody =
    Ended
  | ErrorOnly jsstring
  | Failure jsstring
  | Success jsstring "jsstring option" "jsstring option" jsstring jsprop

record httpres =
  code :: nat
  resHeaders :: "(string \<times> jsstring) list"
  resBody :: resbody

definition corsHeaders :: "(string \<times> jsstring) list" where
  "corsHeaders =
     [(''Access-Control-Allow-Credentials'', js ''true''),
      (''Access-Control-Allow-Origin'', js ''*''),
      (''Access-Control-Allow-Methods'', js ''GET,OPTIONS,PATCH,DELETE,POST,PUT''),
      (''Access-Control-Allow-Headers'',
       js ''X-CSRF-Token, X-Requested-With, Accept, Accept-Version, Content-Length, Content-MD5, Content-Type, Date, X-Api-Version'')]"

definition respond :: "nat \<Rightarrow> resbody \<Rightarrow> httpres" where
  "respond c b = \<lparr> code = c, resHeaders = corsHeaders, resBody = b \<rparr>"

text \<open>
  The \<open>try\<close> block of the first variant, in the order of the source: the credential, the
  content type, the destructuring of the body, the project name, the sanitizing (which a
  truthy value other than a string fails with a \<open>TypeError\<close>), and the three steps.
  \<open>Inl m\<close> is an error of message \<open>m\<close> thrown to the \<open>catch\<close>, \<open>Inr r\<close> a response sent
  from inside the block. The module constant \<open>DAWG_TOKEN\<close> (\<open>VERCEL_TOKEN\<close> in the second
  variant) is the parameter \<open>token\<close>, a string or \<open>undefined\<close>.
\<close>

definition handler_try ::
  "platform \<Rightarrow> jsstring option \<Rightarrow> (jsstring \<Rightarrow> jsstring) \<Rightarrow> typeErrors \<Rightarrow> jsstring \<Rightarrow> httpreq
     \<Rightarrow> (jsstring + httpres) \<times> event list" where
  "handler_try plat token uni errs now req =
     (if \<not> truthy token then
        (Inl (js ''DAWG_TOKEN environment variable is not set. Please add your Vercel token in environment variables.''), [])
      else if \<not> includes_js (orElse (contentType req) []) (js ''multipart/form-data'') then
        (Inl (js ''Content-Type must be multipart/form-data''), [])
      else
        case reqBody req of
          None \<Rightarrow> (Inl (cannotDestructure errs), [])
        | Some b \<Rightarrow>
            if \<not> truthyProp (body_projectName b) then
              (Inr (respond 400 (Failure (js ''Project name is required''))), [])
            else
              (case body_projectName b of
                 StringValue projectName \<Rightarrow>
                   let clean = cleanProjectName uni projectName;
                       site = orElseProp (body_siteName b) clean
                   in case createOrGetProject plat token clean [] of
                        (Inl m, tr1) \<Rightarrow> (Inl m, tr1)
                      | (Inr project, tr1) \<Rightarrow>
                          (case createDeployment plat token now project (render site) tr1 of
                             (Inl m, tr2) \<Rightarrow> (Inl m, tr2)
                           | (Inr deployment, tr2) \<Rightarrow>
                               (case waitForDeploymentReady plat token (deployment ''id'')
                                       (deployment ''url'') 30 tr2 of
                                  (Inl m, tr3) \<Rightarrow> (Inl m, tr3)
                                | (Inr finalUrl, tr3) \<Rightarrow>
                                    (Inr (respond 200
                                            (Success finalUrl (project ''id'')
                                               (deployment ''id'') clean site)), tr3)))
               | _ \<Rightarrow> (Inl (notAFunction errs), [])))"

definition handler ::
  "platform \<Rightarrow> jsstring option \<Rightarrow> (jsstring \<Rightarrow> jsstring) \<Rightarrow> typeErrors \<Rightarrow> jsstring \<Rightarrow> httpreq
     \<Rightarrow> httpres \<times> event list" where
  "handler plat token uni errs now req =
     (if reqMethod req = js ''OPTIONS'' then (respond 200 Ended, [])
      else if reqMethod req \<noteq> js ''POST'' then
        (respond 405 (ErrorOnly (js ''Method not allowed'')), [])
      else
        case handler_try plat token uni errs now req of
          (Inl m, tr) \<Rightarrow>
            (respond 500 (Failure (orElse (Some m) (js ''Unknown deployment error occurred''))), tr)
        | (Inr r, tr) \<Rightarrow> (r, tr))"

text \<open>
  The second variant: the body is destructured first, there is no content-type check and
  no wait, and the \<open>catch\<close> sends the message as it is.
\<close>

definition handler_v2_try ::
  "platform \<Rightarrow> jsstring option \<Rightarrow> (jsstring \<Rightarrow> jsstring) \<Rightarrow> typeErrors \<Rightarrow> jsstring \<Rightarrow> httpreq
     \<Rightarrow> (jsstring + httpres) \<times> event list" where
  "handler_v2_try plat token uni errs now req =
     (case reqBody req of
        None \<Rightarrow> (Inl (cannotDestructure errs), [])
      | Some b \<Rightarrow>
          if \<not> truthy token then
            (Inr (respond 500 (Failure (js ''VERCEL_TOKEN environment variable is not set''))), [])
          else if \<not> truthyProp (body_projectName b) then
            (Inr (respond 400 (Failure (js ''Project name is required''))), [])
          else
            (case body_projectName b of
               StringValue projectName \<Rightarrow>
                 let clean = cleanProjectName uni projectName;
                     site = orElseProp (body_siteName b) clean
                 in case createOrGetProject_v2 plat token clean [] of
                      (Inl m, tr1) \<Rightarrow> (Inl m, tr1)
                    | (Inr project, tr1) \<Rightarrow>
                        (case createDeployment_v2 plat token now project (render site) tr1 of
                           (Inl m, tr2) \<Rightarrow> (Inl m, tr2)
                         | (Inr deployment, tr2) \<Rightarrow>
                             (Inr (respond 200
                                     (Success (js ''https://'' @ tpl (deployment ''url''))
                                        (project ''id'') (deployment ''id'') clean site)), tr2))
             | _ \<Rightarrow> (Inl (notAFunction errs), [])))"

definition handler_v2 ::
  "platform \<Rightarrow> jsstring option \<Rightarrow> (jsstring \<Rightarrow> jsstring) \<Rightarrow> typeErrors \<Rightarrow> jsstring \<Rightarrow> httpreq
     \<Rightarrow> httpres \<times> event list" where
  "handler_v2 plat token uni errs now req =
     (if reqMethod req = js ''OPTIONS'' then (respond 200 Ended, [])
      else if reqMethod req \<noteq> js ''POST'' then
        (respond 405 (ErrorOnly (js ''Method not allowed'')), [])
      else
        case handler_v2_try plat token uni errs now req of
          (Inl m, tr) \<Rightarrow> (respond 500 (Failure m), tr)
        | (Inr r, tr) \<Rightarrow> (r, tr))"

section \<open>Reading a request body back\<close>

text \<open>Property access on an object literal: an absent property is \<open>undefined\<close>.\<close>

definition getProp :: "jsvalue \<Rightarrow> string \<Rightarrow> jsvalue" where
  "getProp v k =
     (case v of
        Obj fs \<Rightarrow> (case map_of fs k of Some x \<Rightarrow> x | None \<Rightarrow> Undefined)
      | _ \<Rightarrow> Undefined)"

section \<open>Platforms and inputs for the examples\<close>

text \<open>
  The Unicode case conversion on strings of code units below 256 (Latin-1): the capital
  letters U+00C0 to U+00DE other than the multiplication sign U+00D7 move up by 32.
  It stands for \<open>uni\<close> in the examples, which use no other code units.
\<close>

definition lowerLatin1 :: "jsstring \<Rightarrow> jsstring" where
  "lowerLatin1 s =
     map (\<lambda>c. if (65 \<le> c \<and> c \<le> 90) \<or> (192 \<le> c \<and> c \<le> 222 \<and> c \<noteq> 215) then c + 32 else c) s"

text \<open>A response with a JSON object as its body.\<close>

definition jsonResponse :: "nat \<Rightarrow> (string \<times> jsstring) list \<Rightarrow> response" where
  "jsonResponse st props = \<lparr> status = st, text_of = [], json_of = Inr (map_of props) \<rparr>"

text \<open>A platform that answers the requests of an invocation from a list, in order.\<close>

definition scripted :: "fetch_result list \<Rightarrow> platform" where
  "scripted rs n req = (if n < length rs then rs ! n else Rejected (js ''fetch failed''))"

text \<open>A platform that cannot be reached.\<close>

definition offline :: platform where
  "offline n req = Rejected (js ''fetch failed'')"

definition building :: fetch_result where
  "building = Responded (jsonResponse 200 [(''readyState'', js ''BUILDING'')])"

definition ready :: fetch_result where
  "ready = Responded (jsonResponse 200
             [(''readyState'', js ''READY''), (''url'', js ''my-site-abc.platform.dev'')])"

definition errored :: fetch_result where
  "errored = Responded (jsonResponse 200
               [(''readyState'', js ''ERROR''), (''errorMessage'', js ''Build failed'')])"


definition deploymentCreated :: fetch_result where
  "deploymentCreated = Responded (jsonResponse 200
                         [(''id'', js ''dep1''), (''url'', js ''my-site-abc.platform.dev'')])"

definition multipartPost :: "jsprop \<Rightarrow> httpreq" where
  "multipartPost name =
     \<lparr> reqMethod = js ''POST'',
       contentType = Some (js ''multipart/form-data; boundary=x''),
       reqBody = Some \<lparr> body_projectName = name, body_siteName = Absent \<rparr> \<rparr>"

text \<open>The two messages as Node.js words them.\<close>

definition nodeErrors :: typeErrors where
  \<open>nodeErrors =
     \<lparr> cannotDestructure =
         js ''Cannot destructure property 'projectName' of 'req.body' as it is undefined.'',
       notAFunction = js ''projectName.toLowerCase is not a function'' \<rparr>\<close>

definition conflict :: fetch_result where
  "conflict = Responded \<lparr> status = 409, text_of = js ''{}'', json_of = Inr (map_of []) \<rparr>"

definition projectFetched :: fetch_result where
  "projectFetched =
     Responded (jsonResponse 200 [(''id'', js ''prj_1''), (''name'', js ''my-site'')])"

definition serverError :: fetch_result where
  "serverError =
     Responded \<lparr> status = 500, text_of = js ''Internal Server Error'',
                 json_of = Inl (js ''Unexpected token I in JSON at position 0'') \<rparr>"

definition deploymentWithoutUrl :: fetch_result where
  "deploymentWithoutUrl = Responded (jsonResponse 200 [(''id'', js ''dep1'')])"

text \<open>
  A platform that creates the project and the deployment and then reports the deployment
  in state \<open>ERROR\<close> at every poll.
\<close>

definition erroring :: platform where
  "erroring n req =
     (if n = 0 then projectFetched else if n = 1 then deploymentCreated else errored)"

section \<open>Properties of the sanitizer\<close>

lemma substring_from_0: "substring s 0 n = take n s"
proof (cases "n \<le> length s")
  case True
  then show ?thesis by (simp add: substring_def Let_def min_def)
next
  case False
  then show ?thesis by (simp add: substring_def Let_def min_def)
qed

lemma replaceInvalid_valid: "list_all validChar (replaceInvalid s)"
  by (induction s) (simp_all add: replaceInvalid_def validChar_def)

lemma collapseDashes_subset: "set (collapseDashes s) \<subseteq> set s"
  by (induction s rule: collapseDashes.induct) auto

lemma collapseDashes_valid: "list_all validChar s \<Longrightarrow> list_all validChar (collapseDashes s)"
  using collapseDashes_subset [of s] by (auto simp: list_all_iff)

lemma collapseDashes_Cons: "\<exists>t. collapseDashes (a # r) = a # t"
  by (induction "a # r" arbitrary: a r rule: collapseDashes.induct) auto

lemma collapseDashes_noDoubleDash: "noDoubleDash (collapseDashes s)"
proof (induction s rule: collapseDashes.induct)
  case (3 a b r)
  obtain t where t: "collapseDashes (b # r) = b # t"
    using collapseDashes_Cons by blast
  with 3 show ?case by auto
qed simp_all

lemma noDoubleDash_take: "noDoubleDash s \<Longrightarrow> noDoubleDash (take n s)"
proof (induction s arbitrary: n rule: noDoubleDash.induct)
  case (3 a b r)
  show ?case
  proof (cases n)
    case (Suc m)
    note n = this
    show ?thesis
    proof (cases m)
      case (Suc k)
      have "noDoubleDash (take m (b # r))"
        using 3 by simp
      with 3 n Suc show ?thesis by simp
    qed (simp add: n)
  qed simp
next
  case (2 c)
  then show ?case by (cases n) simp_all
qed simp

lemma collapseDashes_empty: "collapseDashes s = [] \<longleftrightarrow> s = []"
proof (cases s)
  case (Cons a r)
  then show ?thesis using collapseDashes_Cons [of a r] by auto
qed simp

lemma noDoubleDash_nth:
  "noDoubleDash s \<longleftrightarrow> (\<forall>i. Suc i < length s \<longrightarrow> \<not> (s ! i = 45 \<and> s ! Suc i = 45))"
proof (induction s rule: noDoubleDash.induct)
  case (3 a b r)
  have "(\<forall>i. Suc i < length (a # b # r) \<longrightarrow> \<not> ((a # b # r) ! i = 45 \<and> (a # b # r) ! Suc i = 45))
        \<longleftrightarrow> \<not> (a = 45 \<and> b = 45)
            \<and> (\<forall>i. Suc i < length (b # r) \<longrightarrow> \<not> ((b # r) ! i = 45 \<and> (b # r) ! Suc i = 45))"
    (is "?L \<longleftrightarrow> ?R")
  proof
    assume l: ?L
    have "\<not> (a = 45 \<and> b = 45)"
      using l [rule_format, of 0] by simp
    moreover have "\<not> ((b # r) ! i = 45 \<and> (b # r) ! Suc i = 45)" if "Suc i < length (b # r)" for i
      using l [rule_format, of "Suc i"] that by simp
    ultimately show ?R by blast
  next
    assume r: ?R
    show ?L
    proof (intro allI impI)
      fix i
      assume "Suc i < length (a # b # r)"
      then show "\<not> ((a # b # r) ! i = 45 \<and> (a # b # r) ! Suc i = 45)"
        using r by (cases i) auto
    qed
  qed
  with 3 show ?case by simp
qed simp_all

lemma collapseDashes_id: "noDoubleDash s \<Longrightarrow> collapseDashes s = s"
  by (induction s rule: collapseDashes.induct) auto

lemma collapseDashes_pair: "collapseDashes (a @ 45 # 45 # b) = collapseDashes (a @ 45 # b)"
  by (induction a rule: collapseDashes.induct) auto


text \<open>
  C4: for every raw input string the sanitized name consists only of code units of
  \<open>[a-z0-9-]\<close>, has length at most 50 and has no two consecutive \<open>-\<close>; it is computed by
  lowercasing, then replacing the invalid code units, then collapsing the runs of \<open>-\<close>,
  then truncating to 50, in that order. The statement gives the three properties of the
  result twice, through \<open>validChar\<close> and \<open>noDoubleDash\<close> and spelled out; the composition
  of the four steps on the input; and what each step does to any string:
  \<^item> lowercasing an ASCII string moves \<open>A\<close>..\<open>Z\<close> up by 32 and keeps the rest (outside
    ASCII it is whatever the Unicode conversion \<open>uni\<close> of the runtime does);
  \<^item> the replacement keeps the length, keeps each code unit of \<open>[a-z0-9-]\<close> and puts \<open>-\<close>
    in the place of each other one;
  \<^item> the collapse does not change when one \<open>-\<close> of two adjacent ones is removed, and
    leaves a string without two adjacent \<open>-\<close> as it is, which together say that it
    turns every run of \<open>-\<close> into one \<open>-\<close>;
  \<^item> the truncation keeps the first 50 code units.
\<close>

theorem cleanProjectName_shape:
  "list_all validChar (cleanProjectName uni raw)
   \<and> length (cleanProjectName uni raw) \<le> 50
   \<and> noDoubleDash (cleanProjectName uni raw)
   \<and> cleanProjectName uni raw
       = take 50 (collapseDashes (replaceInvalid (toLowerCase uni raw)))
   \<and> (\<forall>c \<in> set (cleanProjectName uni raw).
         (97 \<le> c \<and> c \<le> 122) \<or> (48 \<le> c \<and> c \<le> 57) \<or> c = 45)
   \<and> (\<forall>i. Suc i < length (cleanProjectName uni raw) \<longrightarrow>
         \<not> (cleanProjectName uni raw ! i = 45 \<and> cleanProjectName uni raw ! Suc i = 45))
   \<and> (list_all (\<lambda>c. c < 128) raw \<longrightarrow>
         toLowerCase uni raw = map (\<lambda>c. if 65 \<le> c \<and> c \<le> 90 then c + 32 else c) raw)
   \<and> length (replaceInvalid s) = length s
   \<and> (\<forall>i < length s.
         replaceInvalid s ! i
         = (if (97 \<le> s ! i \<and> s ! i \<le> 122) \<or> (48 \<le> s ! i \<and> s ! i \<le> 57) \<or> s ! i = 45
            then s ! i else 45))
   \<and> collapseDashes (a @ 45 # 45 # b) = collapseDashes (a @ 45 # b)
   \<and> ((\<forall>i. Suc i < length s \<longrightarrow> \<not> (s ! i = 45 \<and> s ! Suc i = 45)) \<longrightarrow> collapseDashes s = s)"
proof -
  let ?c = "collapseDashes (replaceInvalid (toLowerCase uni raw))"
  have eq: "cleanProjectName uni raw = take 50 ?c"
    by (simp add: cleanProjectName_def substring_from_0)
  have "list_all validChar ?c"
    by (rule collapseDashes_valid) (rule replaceInvalid_valid)
  then have v: "list_all validChar (take 50 ?c)"
    by (auto simp: list_all_iff dest: in_set_takeD)
  have d: "noDoubleDash (take 50 ?c)"
    by (rule noDoubleDash_take) (rule collapseDashes_noDoubleDash)
  have v': "\<forall>c \<in> set (take 50 ?c). (97 \<le> c \<and> c \<le> 122) \<or> (48 \<le> c \<and> c \<le> 57) \<or> c = 45"
    using v by (simp add: list_all_iff validChar_def)
  have d': "\<forall>i. Suc i < length (take 50 ?c) \<longrightarrow>
              \<not> (take 50 ?c ! i = 45 \<and> take 50 ?c ! Suc i = 45)"
    using d by (simp only: noDoubleDash_nth)
  have low: "list_all (\<lambda>c. c < 128) raw \<longrightarrow>
             toLowerCase uni raw = map (\<lambda>c. if 65 \<le> c \<and> c \<le> 90 then c + 32 else c) raw"
    by (auto simp: toLowerCase_def lowerAscii_def)
  have r1: "length (replaceInvalid s) = length s"
    by (simp add: replaceInvalid_def)
  have r2: "\<forall>i < length s.
              replaceInvalid s ! i
              = (if (97 \<le> s ! i \<and> s ! i \<le> 122) \<or> (48 \<le> s ! i \<and> s ! i \<le> 57) \<or> s ! i = 45
                 then s ! i else 45)"
    by (simp add: replaceInvalid_def validChar_def)
  have c2: "(\<forall>i. Suc i < length s \<longrightarrow> \<not> (s ! i = 45 \<and> s ! Suc i = 45)) \<longrightarrow> collapseDashes s = s"
    using collapseDashes_id [of s] by (simp only: noDoubleDash_nth) blast
  show ?thesis
    unfolding eq
    using v d v' d' low r1 r2 c2 collapseDashes_pair [of a b]
    by (intro conjI) simp_all
qed

theorem cleanProjectName_shape_witness:
  "cleanProjectName lowerLatin1 (js ''Ab--c d'') = js ''ab-c-d''
   \<and> length (cleanProjectName lowerLatin1 (js ''Ab--c d'')) \<le> 50
   \<and> toLowerCase lowerLatin1 (js ''Ab--c d'') = js ''ab--c d''
   \<and> length (replaceInvalid (js ''ab c'')) = 4
   \<and> replaceInvalid (js ''ab c'') ! 2 = 45
   \<and> collapseDashes (js ''a'' @ 45 # 45 # js ''b'') = collapseDashes (js ''a'' @ 45 # js ''b'')
   \<and> collapseDashes (js ''ab c'') = js ''ab c''"
proof -
  note t = cleanProjectName_shape [of lowerLatin1 "js ''Ab--c d''" "js ''ab c''" "js ''a''" "js ''b''"]
  have ascii: "list_all (\<lambda>c. c < 128) (js ''Ab--c d'')"
    by (simp add: js_def)
  have nodash: "\<forall>i. Suc i < length (js ''ab c'') \<longrightarrow>
                  \<not> (js ''ab c'' ! i = 45 \<and> js ''ab c'' ! Suc i = 45)"
  proof (intro allI impI)
    fix i
    assume "Suc i < length (js ''ab c'')"
    then have "js ''ab c'' ! i \<in> set (js ''ab c'')"
      by (intro nth_mem) simp
    then show "\<not> (js ''ab c'' ! i = 45 \<and> js ''ab c'' ! Suc i = 45)"
      by (auto simp: js_def)
  qed
  have i2: "2 < length (js ''ab c'')"
    by (simp add: js_def)
  from t have low: "toLowerCase lowerLatin1 (js ''Ab--c d'') = js ''ab--c d''"
    using ascii by (simp add: js_def)
  from t have r: "replaceInvalid (js ''ab c'') ! 2 = 45"
    using i2 by (auto simp: js_def)
  from t have c: "collapseDashes (js ''ab c'') = js ''ab c''"
    using nodash by blast
  from t have res: "cleanProjectName lowerLatin1 (js ''Ab--c d'') = js ''ab-c-d''"
    using low by (simp add: replaceInvalid_def validChar_def js_def)
  from t have len: "length (replaceInvalid (js ''ab c'')) = 4"
    by (simp add: js_def)
  from t have p: "collapseDashes (js ''a'' @ 45 # 45 # js ''b'') = collapseDashes (js ''a'' @ 45 # js ''b'')"
    by blast
  from t have l50: "length (cleanProjectName lowerLatin1 (js ''Ab--c d'')) \<le> 50"
    by blast
  from res l50 low len r p c show ?thesis by blast
qed

text \<open>
  C5: the input \<open>My Cool Site!!!\<close> is lowercased to \<open>my cool site!!!\<close>, the replacement
  gives \<open>my-cool-site---\<close>, the collapse \<open>my-cool-site-\<close>, and that is the sanitized name.
\<close>

theorem cleanProjectName_my_cool_site:
  "toLowerCase uni (js ''My Cool Site!!!'') = js ''my cool site!!!''
   \<and> replaceInvalid (js ''my cool site!!!'') = js ''my-cool-site---''
   \<and> collapseDashes (js ''my-cool-site---'') = js ''my-cool-site-''
   \<and> cleanProjectName uni (js ''My Cool Site!!!'') = js ''my-cool-site-''"
  by (simp add: js_def toLowerCase_def lowerAscii_def replaceInvalid_def validChar_def
        cleanProjectName_def substring_from_0)

subsection \<open>Empty and non-empty names\<close>

lemma collapseDashes_replicate: "collapseDashes (replicate (Suc n) 45) = [45]"
  by (induction n) simp_all

lemma replaceInvalid_all_invalid:
  "\<not> list_ex validChar s \<Longrightarrow> replaceInvalid s = replicate (length s) 45"
  by (induction s) (simp_all add: replaceInvalid_def)

lemma toLowerCase_empty:
  assumes "\<And>s. s \<noteq> [] \<Longrightarrow> uni s \<noteq> []"
  shows "toLowerCase uni s = [] \<longleftrightarrow> s = []"
proof (cases "s = []")
  case True
  then show ?thesis by (simp add: toLowerCase_def)
next
  case False
  with assms [of s] show ?thesis by (simp add: toLowerCase_def)
qed

text \<open>
  C10, as amended: for every non-empty raw input the sanitized name is non-empty, and the
  output is empty if and only if the input is; an input whose lowercased form has no code
  unit of \<open>[a-z0-9-]\<close> sanitizes to the single character \<open>-\<close>. The builtin
  case conversion is taken to map a non-empty string to a non-empty one.
\<close>

theorem cleanProjectName_empty_iff:
  assumes "\<And>s. s \<noteq> [] \<Longrightarrow> uni s \<noteq> []"
  shows "(cleanProjectName uni raw = [] \<longleftrightarrow> raw = [])
         \<and> (raw \<noteq> [] \<and> \<not> list_ex validChar (toLowerCase uni raw)
              \<longrightarrow> cleanProjectName uni raw = js ''-'')"
proof -
  let ?l = "toLowerCase uni raw"
  have l: "?l = [] \<longleftrightarrow> raw = []"
    using assms by (rule toLowerCase_empty)
  have eq: "cleanProjectName uni raw = take 50 (collapseDashes (replaceInvalid ?l))"
    by (simp add: cleanProjectName_def substring_from_0)
  have "replaceInvalid ?l = [] \<longleftrightarrow> raw = []"
    using l by (simp add: replaceInvalid_def)
  then have first: "cleanProjectName uni raw = [] \<longleftrightarrow> raw = []"
    by (simp add: eq collapseDashes_empty)
  have second: "cleanProjectName uni raw = js ''-''"
    if ne: "raw \<noteq> []" and inv: "\<not> list_ex validChar ?l"
  proof -
    from ne l obtain n where n: "length ?l = Suc n"
      by (cases ?l) auto
    have "replaceInvalid ?l = replicate (Suc n) 45"
      using replaceInvalid_all_invalid [OF inv] n by simp
    then have "collapseDashes (replaceInvalid ?l) = [45]"
      by (simp only: collapseDashes_replicate)
    then show ?thesis
      by (simp add: eq js_def)
  qed
  from first second show ?thesis by blast
qed

theorem cleanProjectName_empty_iff_witness:
  "cleanProjectName lowerLatin1 (js ''@#$ %'') = js ''-''
   \<and> cleanProjectName lowerLatin1 (js ''@#$ %'') \<noteq> []
   \<and> cleanProjectName lowerLatin1 [] = []"
proof -
  have u: "\<And>s. s \<noteq> [] \<Longrightarrow> lowerLatin1 s \<noteq> []"
    by (simp add: lowerLatin1_def)
  have inv: "\<not> list_ex validChar (toLowerCase lowerLatin1 (js ''@#$ %''))"
    by (simp add: js_def toLowerCase_def lowerAscii_def validChar_def)
  have ne: "js ''@#$ %'' \<noteq> []"
    by (simp add: js_def)
  from cleanProjectName_empty_iff [of lowerLatin1 "js ''@#$ %''", OF u] inv ne
    cleanProjectName_empty_iff [of lowerLatin1 "[]", OF u]
  show ?thesis by (simp add: js_def)
qed

text \<open>
  The claim C10 as it is worded fails for a capital letter: \<open>A\<close> has no code unit of
  \<open>[a-z0-9-]\<close>, and it sanitizes to \<open>a\<close>, not to \<open>-\<close>.
\<close>

theorem cleanProjectName_capital_counterexample:
  "js ''A'' \<noteq> [] \<and> \<not> list_ex validChar (js ''A'')
   \<and> cleanProjectName lowerLatin1 (js ''A'') = js ''a''
   \<and> cleanProjectName lowerLatin1 (js ''A'') \<noteq> js ''-''"
  by (simp add: js_def toLowerCase_def lowerAscii_def replaceInvalid_def validChar_def
        cleanProjectName_def substring_from_0)

subsection \<open>The builtins on known inputs\<close>

lemma base64_examples:
  "base64 (utf8 (js ''Man'')) = js ''TWFu''"
  "base64 (utf8 (js ''Ma'')) = js ''TWE=''"
  "base64 (utf8 (js ''M'')) = js ''TQ==''"
  "base64 (utf8 [0xd83d, 0xde80]) = js ''8J+agA==''"
  "base64 (utf8 [0x2705, 0xe9]) = js ''4pyFw6k=''"
  by (simp_all add: js_def b64char_def Let_def)

lemma utf8_ascii: "list_all (\<lambda>c. c < 128) s \<Longrightarrow> utf8 s = s"
  by (induction s) simp_all

lemma base64_length: "length (base64 bs) = 4 * ((length bs + 2) div 3)"
proof (induction bs rule: base64.induct)
  case (4 a b c r)
  have "(length r + 5) div 3 = Suc ((length r + 2) div 3)"
    by arith
  with 4 show ?case
    by (simp add: add.commute)
qed simp_all

lemma showNat_examples: "showNat 409 = js ''409''" "showNat 0 = js ''0''"
  by (simp_all add: js_def)

lemma includes_js_examples:
  "includes_js (js ''multipart/form-data; boundary=x'') (js ''multipart/form-data'')"
  "\<not> includes_js (js ''application/json'') (js ''multipart/form-data'')"
  by (simp_all add: js_def)

section \<open>Properties of \<open>waitForDeploymentReady\<close>\<close>

lemma fetchCount_snoc_Fetch: "fetchCount (tr @ [Fetch q]) = fetchCount tr + 1"
  by (simp add: fetchCount_def)

lemma fetchCount_snoc_Fetch_Sleep: "fetchCount (tr @ [Fetch q, Sleep ms]) = fetchCount tr + 1"
  by (simp add: fetchCount_def)

lemma readyStates_distinct:
  "js ''BUILDING'' \<noteq> js ''READY''" "js ''BUILDING'' \<noteq> js ''ERROR''"
  "js ''BUILDING'' \<noteq> js ''CANCELED''" "js ''ERROR'' \<noteq> js ''READY''"
  "js ''CANCELED'' \<noteq> js ''READY''" "js ''CANCELED'' \<noteq> js ''ERROR''"
  by (simp_all add: js_def)

text \<open>One poll that finds the deployment in a state that is not terminal.\<close>

lemma waitAttempt_try_nonterminal:
  assumes "plat (fetchCount tr) (statusRequest token deploymentId) = Responded r"
    and "ok r" and "json_of r = Inr d"
    and "d ''readyState'' \<noteq> Some (js ''READY'')"
    and "d ''readyState'' \<noteq> Some (js ''ERROR'')"
    and "d ''readyState'' \<noteq> Some (js ''CANCELED'')"
  shows "waitAttempt_try plat token deploymentId tr
         = (Completed, tr @ [Fetch (statusRequest token deploymentId), Sleep 2000])"
  using assms by (simp add: waitAttempt_try_def fetch_def)

lemma waitAttempt_try_READY:
  assumes "plat (fetchCount tr) (statusRequest token deploymentId) = Responded r"
    and "ok r" and "json_of r = Inr d"
    and "d ''readyState'' = Some (js ''READY'')"
  shows "waitAttempt_try plat token deploymentId tr
         = (Returned (js ''https://'' @ tpl (d ''url'')),
            tr @ [Fetch (statusRequest token deploymentId)])"
  using assms by (simp add: waitAttempt_try_def fetch_def)

lemma waitAttempt_try_ERROR:
  assumes "plat (fetchCount tr) (statusRequest token deploymentId) = Responded r"
    and "ok r" and "json_of r = Inr d"
    and "d ''readyState'' = Some (js ''ERROR'')"
  shows "waitAttempt_try plat token deploymentId tr
         = (Thrown (js ''Deployment failed: ''
                    @ orElse (d ''errorMessage'') (js ''Unknown error'')),
            tr @ [Fetch (statusRequest token deploymentId)])"
  using assms by (simp add: waitAttempt_try_def fetch_def readyStates_distinct)

text \<open>What the loop does with each outcome of an iteration.\<close>

lemma waitLoop_Completed:
  assumes "attempt \<le> maxAttempts"
    and "waitAttempt_try plat token deploymentId tr = (Completed, tr1)"
  shows "waitLoop plat token deploymentId deploymentUrl maxAttempts attempt tr
         = waitLoop plat token deploymentId deploymentUrl maxAttempts (attempt + 1) tr1"
  using assms by (subst waitLoop.simps) simp

lemma waitLoop_Returned:
  assumes "attempt \<le> maxAttempts"
    and "waitAttempt_try plat token deploymentId tr = (Returned u, tr1)"
  shows "waitLoop plat token deploymentId deploymentUrl maxAttempts attempt tr = (Inr u, tr1)"
  using assms by (subst waitLoop.simps) simp

lemma waitLoop_Thrown_early:
  assumes "attempt < maxAttempts"
    and "waitAttempt_try plat token deploymentId tr = (Thrown m, tr1)"
  shows "waitLoop plat token deploymentId deploymentUrl maxAttempts attempt tr
         = waitLoop plat token deploymentId deploymentUrl maxAttempts (attempt + 1) tr1"
  using assms by (subst waitLoop.simps) simp

lemma waitLoop_Thrown_last:
  assumes "waitAttempt_try plat token deploymentId tr = (Thrown m, tr1)"
  shows "waitLoop plat token deploymentId deploymentUrl maxAttempts maxAttempts tr
         = (if truthy deploymentUrl then (Inr (js ''https://'' @ tpl deploymentUrl), tr1)
            else (Inl (js ''Deployment timeout: '' @ m), tr1))"
  using assms by (subst waitLoop.simps) simp

lemma waitLoop_exhausted:
  assumes "maxAttempts < attempt"
  shows "waitLoop plat token deploymentId deploymentUrl maxAttempts attempt tr
         = (Inl (js ''Deployment timeout: Maximum attempts reached''), tr)"
  using assms by (subst waitLoop.simps) simp

text \<open>
  C6: when successive polls report \<open>BUILDING\<close>, \<open>BUILDING\<close>, \<open>READY\<close>, the function returns
  \<open>https://\<close> followed by the reported url; it has sent exactly three status queries and
  waited exactly twice for 2000 ms, once after each \<open>BUILDING\<close> poll and not after the
  \<open>READY\<close> one. The loop must be allowed three attempts (the default is 30).
\<close>

theorem waitForDeploymentReady_building_building_ready:
  assumes "3 \<le> maxAttempts"
    and "plat (fetchCount tr) (statusRequest token deploymentId) = Responded ra"
    and "ok ra" and "json_of ra = Inr da" and "da ''readyState'' = Some (js ''BUILDING'')"
    and "plat (fetchCount tr + 1) (statusRequest token deploymentId) = Responded rb"
    and "ok rb" and "json_of rb = Inr db" and "db ''readyState'' = Some (js ''BUILDING'')"
    and "plat (fetchCount tr + 2) (statusRequest token deploymentId) = Responded rc"
    and "ok rc" and "json_of rc = Inr dc" and "dc ''readyState'' = Some (js ''READY'')"
  shows "waitForDeploymentReady plat token deploymentId deploymentUrl maxAttempts tr
         = (Inr (js ''https://'' @ tpl (dc ''url'')),
            tr @ [Fetch (statusRequest token deploymentId), Sleep 2000,
                  Fetch (statusRequest token deploymentId), Sleep 2000,
                  Fetch (statusRequest token deploymentId)])"
proof -
  let ?q = "statusRequest token deploymentId"
  let ?tr1 = "tr @ [Fetch ?q, Sleep 2000]"
  let ?tr2 = "?tr1 @ [Fetch ?q, Sleep 2000]"
  have a1: "waitAttempt_try plat token deploymentId tr = (Completed, ?tr1)"
    using assms(2-5) waitAttempt_try_nonterminal [where plat = plat and tr = tr and r = ra and d = da]
    by (simp add: readyStates_distinct)
  have "plat (fetchCount ?tr1) ?q = Responded rb"
    using assms(6) by (simp add: fetchCount_snoc_Fetch_Sleep)
  then have a2: "waitAttempt_try plat token deploymentId ?tr1 = (Completed, ?tr2)"
    using assms(7-9)
      waitAttempt_try_nonterminal [where plat = plat and tr = ?tr1 and r = rb and d = db]
    by (simp add: readyStates_distinct)
  have "fetchCount ?tr2 = fetchCount tr + 2"
    by (simp add: fetchCount_def)
  then have "plat (fetchCount ?tr2) ?q = Responded rc"
    using assms(10) by simp
  then have a3: "waitAttempt_try plat token deploymentId ?tr2
                 = (Returned (js ''https://'' @ tpl (dc ''url'')), ?tr2 @ [Fetch ?q])"
    using assms(11-13)
      waitAttempt_try_READY [where plat = plat and tr = ?tr2 and r = rc and d = dc]
    by simp
  have "waitLoop plat token deploymentId deploymentUrl maxAttempts 1 tr
        = waitLoop plat token deploymentId deploymentUrl maxAttempts 2 ?tr1"
    using waitLoop_Completed [OF _ a1, of 1 maxAttempts deploymentUrl] assms(1)
    by (simp add: numeral_2_eq_2 numeral_3_eq_3)
  also have "\<dots> = waitLoop plat token deploymentId deploymentUrl maxAttempts 3 ?tr2"
    using waitLoop_Completed [OF _ a2, of 2 maxAttempts deploymentUrl] assms(1)
    by (simp add: numeral_2_eq_2 numeral_3_eq_3)
  also have "\<dots> = (Inr (js ''https://'' @ tpl (dc ''url'')), ?tr2 @ [Fetch ?q])"
    using waitLoop_Returned [OF _ a3, of 3 maxAttempts deploymentUrl] assms(1)
    by (simp add: numeral_2_eq_2 numeral_3_eq_3)
  finally show ?thesis
    by (simp add: waitForDeploymentReady_def)
qed

theorem waitForDeploymentReady_building_building_ready_witness:
  "waitForDeploymentReady (scripted [building, building, ready]) (Some (js ''t0k3n''))
     (Some (js ''dep1'')) (Some (js ''fallback.platform.dev'')) 30 []
   = (Inr (js ''https://my-site-abc.platform.dev''),
      [Fetch (statusRequest (Some (js ''t0k3n'')) (Some (js ''dep1''))), Sleep 2000,
       Fetch (statusRequest (Some (js ''t0k3n'')) (Some (js ''dep1''))), Sleep 2000,
       Fetch (statusRequest (Some (js ''t0k3n'')) (Some (js ''dep1'')))])"
  using waitForDeploymentReady_building_building_ready
    [where plat = "scripted [building, building, ready]" and tr = "[]" and maxAttempts = 30
       and token = "Some (js ''t0k3n'')" and deploymentId = "Some (js ''dep1'')"
       and deploymentUrl = "Some (js ''fallback.platform.dev'')"
       and ra = "jsonResponse 200 [(''readyState'', js ''BUILDING'')]"
       and da = "map_of [(''readyState'', js ''BUILDING'')]"
       and rb = "jsonResponse 200 [(''readyState'', js ''BUILDING'')]"
       and db = "map_of [(''readyState'', js ''BUILDING'')]"
       and rc = "jsonResponse 200
                   [(''readyState'', js ''READY''), (''url'', js ''my-site-abc.platform.dev'')]"
       and dc = "map_of
                   [(''readyState'', js ''READY''), (''url'', js ''my-site-abc.platform.dev'')]"]
  by (simp add: scripted_def building_def ready_def jsonResponse_def ok_def fetchCount_def
        tpl_def js_def)

subsection \<open>A deployment in state \<open>ERROR\<close>\<close>

text \<open>
  The \<open>throw\<close> for \<open>ERROR\<close> sits inside the \<open>try\<close> of the iteration, so the \<open>catch\<close> of the
  same iteration receives it: before the last attempt the loop goes on to the next poll,
  without waiting.
\<close>

lemma waitLoop_ERROR_continues:
  assumes "attempt < maxAttempts"
    and "plat (fetchCount tr) (statusRequest token deploymentId) = Responded r"
    and "ok r" and "json_of r = Inr d" and "d ''readyState'' = Some (js ''ERROR'')"
  shows "waitLoop plat token deploymentId deploymentUrl maxAttempts attempt tr
         = waitLoop plat token deploymentId deploymentUrl maxAttempts (attempt + 1)
             (tr @ [Fetch (statusRequest token deploymentId)])"
proof -
  have "waitAttempt_try plat token deploymentId tr
        = (Thrown (js ''Deployment failed: ''
                   @ orElse (d ''errorMessage'') (js ''Unknown error'')),
           tr @ [Fetch (statusRequest token deploymentId)])"
    using assms(2-5) waitAttempt_try_ERROR [where plat = plat and tr = tr and r = r and d = d]
    by simp
  then show ?thesis
    using assms(1) by (rule waitLoop_Thrown_early [rotated])
qed

text \<open>On the last attempt the fallback URL, when there is one, is returned as a success.\<close>

lemma waitLoop_ERROR_last:
  assumes "plat (fetchCount tr) (statusRequest token deploymentId) = Responded r"
    and "ok r" and "json_of r = Inr d" and "d ''readyState'' = Some (js ''ERROR'')"
  shows "waitLoop plat token deploymentId deploymentUrl maxAttempts maxAttempts tr
         = (if truthy deploymentUrl then
              (Inr (js ''https://'' @ tpl deploymentUrl),
               tr @ [Fetch (statusRequest token deploymentId)])
            else
              (Inl (js ''Deployment timeout: '' @ js ''Deployment failed: ''
                    @ orElse (d ''errorMessage'') (js ''Unknown error'')),
               tr @ [Fetch (statusRequest token deploymentId)]))"
proof -
  have "waitAttempt_try plat token deploymentId tr
        = (Thrown (js ''Deployment failed: ''
                   @ orElse (d ''errorMessage'') (js ''Unknown error'')),
           tr @ [Fetch (statusRequest token deploymentId)])"
    using assms waitAttempt_try_ERROR [where plat = plat and tr = tr and r = r and d = d]
    by simp
  then show ?thesis
    by (simp add: waitLoop_Thrown_last)
qed

text \<open>
  C1 (the code against the claim): with the default 30 attempts, a first poll that reports
  \<open>ERROR\<close> does not end the function. It polls again, and when the second poll reports
  \<open>READY\<close> it returns the ready URL. When every poll of a budget of two reports \<open>ERROR\<close>
  it returns the fallback URL as a success, and without a fallback URL it throws an error
  whose message starts with \<open>Deployment timeout\<close>.
\<close>

theorem waitForDeploymentReady_ERROR_polls_again:
  "waitForDeploymentReady (scripted [errored, ready]) (Some (js ''t0k3n''))
     (Some (js ''dep1'')) (Some (js ''fallback.platform.dev'')) 30 []
   = (Inr (js ''https://my-site-abc.platform.dev''),
      [Fetch (statusRequest (Some (js ''t0k3n'')) (Some (js ''dep1''))),
       Fetch (statusRequest (Some (js ''t0k3n'')) (Some (js ''dep1'')))])
   \<and> waitForDeploymentReady (scripted [errored, errored]) (Some (js ''t0k3n''))
       (Some (js ''dep1'')) (Some (js ''fallback.platform.dev'')) 2 []
     = (Inr (js ''https://fallback.platform.dev''),
        [Fetch (statusRequest (Some (js ''t0k3n'')) (Some (js ''dep1''))),
         Fetch (statusRequest (Some (js ''t0k3n'')) (Some (js ''dep1'')))])
   \<and> waitForDeploymentReady (scripted [errored, errored]) (Some (js ''t0k3n''))
       (Some (js ''dep1'')) None 2 []
     = (Inl (js ''Deployment timeout: Deployment failed: Build failed''),
        [Fetch (statusRequest (Some (js ''t0k3n'')) (Some (js ''dep1''))),
         Fetch (statusRequest (Some (js ''t0k3n'')) (Some (js ''dep1'')))])"
  by (simp add: waitForDeploymentReady_def waitLoop.simps waitAttempt_try_def fetch_def
        fetchCount_def scripted_def errored_def ready_def jsonResponse_def ok_def
        readyStates_distinct truthy_def tpl_def orElse_def js_def)

subsection \<open>A deployment that stays in a state that is not terminal\<close>

text \<open>
  When every poll reports a state other than \<open>READY\<close>, \<open>ERROR\<close> and \<open>CANCELED\<close>, no
  iteration throws, the \<open>catch\<close> with the fallback URL is never entered, and the loop ends
  at the \<open>throw\<close> after it, whatever the fallback URL is.
\<close>

lemma waitLoop_all_nonterminal:
  assumes "\<And>n. \<exists>r d. plat n (statusRequest token deploymentId) = Responded r \<and> ok r
                    \<and> json_of r = Inr d
                    \<and> d ''readyState'' \<noteq> Some (js ''READY'')
                    \<and> d ''readyState'' \<noteq> Some (js ''ERROR'')
                    \<and> d ''readyState'' \<noteq> Some (js ''CANCELED'')"
  shows "waitLoop plat token deploymentId deploymentUrl maxAttempts attempt tr
         = (Inl (js ''Deployment timeout: Maximum attempts reached''),
            tr @ concat (replicate (maxAttempts + 1 - attempt)
                           [Fetch (statusRequest token deploymentId), Sleep 2000]))"
proof (induction "maxAttempts + 1 - attempt" arbitrary: attempt tr)
  case 0
  then have "maxAttempts < attempt" by simp
  then show ?case
    using 0 by (simp add: waitLoop_exhausted)
next
  case (Suc k)
  let ?q = "statusRequest token deploymentId"
  from Suc.hyps(2) have le: "attempt \<le> maxAttempts" by simp
  from assms [of "fetchCount tr"] obtain r d where
    "plat (fetchCount tr) ?q = Responded r" "ok r" "json_of r = Inr d"
    "d ''readyState'' \<noteq> Some (js ''READY'')"
    "d ''readyState'' \<noteq> Some (js ''ERROR'')"
    "d ''readyState'' \<noteq> Some (js ''CANCELED'')"
    by blast
  then have a: "waitAttempt_try plat token deploymentId tr = (Completed, tr @ [Fetch ?q, Sleep 2000])"
    using waitAttempt_try_nonterminal [where plat = plat and tr = tr and r = r and d = d]
    by simp
  have k: "k = maxAttempts + 1 - (attempt + 1)"
    using Suc.hyps(2) by simp
  have "waitLoop plat token deploymentId deploymentUrl maxAttempts attempt tr
        = waitLoop plat token deploymentId deploymentUrl maxAttempts (attempt + 1)
            (tr @ [Fetch ?q, Sleep 2000])"
    using le a by (rule waitLoop_Completed)
  also have "\<dots> = (Inl (js ''Deployment timeout: Maximum attempts reached''),
                    (tr @ [Fetch ?q, Sleep 2000])
                    @ concat (replicate (maxAttempts + 1 - (attempt + 1)) [Fetch ?q, Sleep 2000]))"
    using k by (rule Suc.hyps(1))
  finally show ?case
    using Suc.hyps(2) [symmetric] k by simp
qed

text \<open>
  C2 (the code against the claim): with three attempts, every poll reporting \<open>BUILDING\<close>
  and a fallback URL supplied, the function does not return the fallback URL; it throws
  the error \<open>Deployment timeout: Maximum attempts reached\<close> after three polls and three
  waits.
\<close>

theorem waitForDeploymentReady_all_building_fails:
  "waitForDeploymentReady (scripted [building, building, building]) (Some (js ''t0k3n''))
     (Some (js ''dep1'')) (Some (js ''fallback.platform.dev'')) 3 []
   = (Inl (js ''Deployment timeout: Maximum attempts reached''),
      [Fetch (statusRequest (Some (js ''t0k3n'')) (Some (js ''dep1''))), Sleep 2000,
       Fetch (statusRequest (Some (js ''t0k3n'')) (Some (js ''dep1''))), Sleep 2000,
       Fetch (statusRequest (Some (js ''t0k3n'')) (Some (js ''dep1''))), Sleep 2000])"
  by (simp add: waitForDeploymentReady_def waitLoop.simps waitAttempt_try_def fetch_def
        fetchCount_def scripted_def building_def jsonResponse_def ok_def
        readyStates_distinct)

section \<open>Properties of \<open>createOrGetProject\<close>\<close>

lemma createOrGetProject_409:
  assumes "plat (fetchCount tr) (createProjectRequest token name) = Responded createResponse"
    and "status createResponse = 409"
    and "plat (fetchCount tr + 1) (getProjectRequest token name) = Responded getResponse"
    and "ok getResponse" and "json_of getResponse = Inr existing"
  shows "createOrGetProject plat token name tr
         = (Inr existing,
            tr @ [Fetch (createProjectRequest token name),
                  Fetch (getProjectRequest token name)])"
  using assms
  by (simp add: createOrGetProject_def createOrGetProject_try_def fetch_def ok_def
        fetchCount_snoc_Fetch Let_def)

lemma createOrGetProject_v2_409:
  assumes "plat (fetchCount tr) (createProjectRequest_v2 token name) = Responded createResponse"
    and "status createResponse = 409"
    and "plat (fetchCount tr + 1) (getProjectRequest token name) = Responded getResponse"
    and "ok getResponse" and "json_of getResponse = Inr existing"
  shows "createOrGetProject_v2 plat token name tr
         = (Inr existing,
            tr @ [Fetch (createProjectRequest_v2 token name),
                  Fetch (getProjectRequest token name)])"
  using assms
  by (simp add: createOrGetProject_v2_def createOrGetProject_v2_try_def fetch_def ok_def
        fetchCount_snoc_Fetch Let_def)

text \<open>
  C7: for every project name, when the creation POST is answered with status 409 and the
  GET of the project by name that follows is answered with a 2xx status and a JSON body,
  \<open>createOrGetProject\<close> returns the fetched project after exactly these two requests; it
  throws nothing. This holds in both variants of the file.
\<close>

theorem createOrGetProject_conflict_returns_existing:
  assumes "status createResponse = 409"
    and "plat (fetchCount tr + 1) (getProjectRequest token name) = Responded getResponse"
    and "ok getResponse" and "json_of getResponse = Inr existing"
  shows "(plat (fetchCount tr) (createProjectRequest token name) = Responded createResponse
          \<longrightarrow> createOrGetProject plat token name tr
              = (Inr existing,
                 tr @ [Fetch (createProjectRequest token name),
                       Fetch (getProjectRequest token name)]))
       \<and> (plat (fetchCount tr) (createProjectRequest_v2 token name) = Responded createResponse
          \<longrightarrow> createOrGetProject_v2 plat token name tr
              = (Inr existing,
                 tr @ [Fetch (createProjectRequest_v2 token name),
                       Fetch (getProjectRequest token name)]))"
  using assms createOrGetProject_409 createOrGetProject_v2_409 by blast

theorem createOrGetProject_conflict_returns_existing_witness:
  "createOrGetProject (scripted [conflict, projectFetched]) (Some (js ''t0k3n''))
     (js ''my-site'') []
   = (Inr (map_of [(''id'', js ''prj_1''), (''name'', js ''my-site'')]),
      [Fetch (createProjectRequest (Some (js ''t0k3n'')) (js ''my-site'')),
       Fetch (getProjectRequest (Some (js ''t0k3n'')) (js ''my-site''))])
   \<and> createOrGetProject_v2 (scripted [conflict, projectFetched]) (Some (js ''t0k3n''))
       (js ''my-site'') []
     = (Inr (map_of [(''id'', js ''prj_1''), (''name'', js ''my-site'')]),
        [Fetch (createProjectRequest_v2 (Some (js ''t0k3n'')) (js ''my-site'')),
         Fetch (getProjectRequest (Some (js ''t0k3n'')) (js ''my-site''))])"
  using createOrGetProject_conflict_returns_existing
    [where plat = "scripted [conflict, projectFetched]" and tr = "[]"
       and token = "Some (js ''t0k3n'')" and name = "js ''my-site''"
       and createResponse = "\<lparr> status = 409, text_of = js ''{}'', json_of = Inr (map_of []) \<rparr>"
       and getResponse = "jsonResponse 200 [(''id'', js ''prj_1''), (''name'', js ''my-site'')]"
       and existing = "map_of [(''id'', js ''prj_1''), (''name'', js ''my-site'')]"]
  by (simp add: scripted_def conflict_def projectFetched_def jsonResponse_def ok_def
        fetchCount_def)

section \<open>Properties of \<open>createDeployment\<close>\<close>

text \<open>Each variant sends exactly one request, whatever the platform answers.\<close>

lemma createDeployment_sends:
  "snd (createDeployment plat token now project siteName tr)
   = tr @ [Fetch (deploymentRequest token
                    (deploymentPayload project (htmlContent siteName project now)))]"
  by (simp add: createDeployment_def createDeployment_try_def fetch_def
        split: fetch_result.split sum.split)

lemma createDeployment_v2_sends:
  "snd (createDeployment_v2 plat token now project siteName tr)
   = tr @ [Fetch (deploymentRequest token
                    (deploymentPayload_v2 project (htmlContent_v2 siteName project now)))]"
  by (simp add: createDeployment_v2_def fetch_def split: fetch_result.split)

text \<open>
  C8: for every project and site name, the one request \<open>createDeployment\<close> sends has as its
  body a payload whose \<open>files\<close> is a list of exactly one entry, with \<open>file\<close> \<open>index.html\<close>,
  \<open>data\<close> the base64 encoding of the (UTF-8 encoded) generated page and \<open>encoding\<close>
  \<open>base64\<close>; its \<open>target\<close> is \<open>production\<close>, its \<open>project\<close> is the \<open>id\<close> of the resolved
  project, and it configures no build, install or output command: the first variant sets
  the three to \<open>null\<close>, the second leaves them out.
\<close>

theorem createDeployment_payload:
  "snd (createDeployment plat token now project siteName tr)
     = tr @ [Fetch (deploymentRequest token
                      (deploymentPayload project (htmlContent siteName project now)))]
   \<and> body (deploymentRequest token
              (deploymentPayload project (htmlContent siteName project now)))
     = Some (deploymentPayload project (htmlContent siteName project now))
   \<and> getProp (deploymentPayload project (htmlContent siteName project now)) ''files''
     = Arr [Obj [(''file'', Str (js ''index.html'')),
                 (''data'', Str (base64 (utf8 (htmlContent siteName project now)))),
                 (''encoding'', Str (js ''base64''))]]
   \<and> getProp (deploymentPayload project (htmlContent siteName project now)) ''target''
     = Str (js ''production'')
   \<and> getProp (deploymentPayload project (htmlContent siteName project now)) ''project''
     = strOrUndefined (project ''id'')
   \<and> getProp (deploymentPayload project (htmlContent siteName project now)) ''buildCommand''
     = Null
   \<and> getProp (deploymentPayload project (htmlContent siteName project now)) ''installCommand''
     = Null
   \<and> getProp (deploymentPayload project (htmlContent siteName project now)) ''outputDirectory''
     = Null
   \<and> snd (createDeployment_v2 plat token now project siteName tr)
     = tr @ [Fetch (deploymentRequest token
                      (deploymentPayload_v2 project (htmlContent_v2 siteName project now)))]
   \<and> body (deploymentRequest token
              (deploymentPayload_v2 project (htmlContent_v2 siteName project now)))
     = Some (deploymentPayload_v2 project (htmlContent_v2 siteName project now))
   \<and> getProp (deploymentPayload_v2 project (htmlContent_v2 siteName project now)) ''files''
     = Arr [Obj [(''file'', Str (js ''index.html'')),
                 (''data'', Str (base64 (utf8 (htmlContent_v2 siteName project now)))),
                 (''encoding'', Str (js ''base64''))]]
   \<and> getProp (deploymentPayload_v2 project (htmlContent_v2 siteName project now)) ''target''
     = Str (js ''production'')
   \<and> getProp (deploymentPayload_v2 project (htmlContent_v2 siteName project now)) ''project''
     = strOrUndefined (project ''id'')
   \<and> getProp (deploymentPayload_v2 project (htmlContent_v2 siteName project now)) ''buildCommand''
     = Undefined
   \<and> getProp (deploymentPayload_v2 project (htmlContent_v2 siteName project now)) ''installCommand''
     = Undefined
   \<and> getProp (deploymentPayload_v2 project (htmlContent_v2 siteName project now)) ''outputDirectory''
     = Undefined"
  by (simp add: createDeployment_sends createDeployment_v2_sends deploymentRequest_def
        deploymentPayload_def deploymentPayload_v2_def getProp_def)

section \<open>Properties of \<open>handler\<close>\<close>

text \<open>Every error that leaves one of the three steps has a non-empty message.\<close>


lemma waitLoop_error_nonempty:
  "waitLoop plat token deploymentId deploymentUrl maxAttempts attempt tr = (Inl m, tr') \<Longrightarrow> m \<noteq> []"
proof (induction plat token deploymentId deploymentUrl maxAttempts attempt tr rule: waitLoop.induct)
  case (1 plat token deploymentId deploymentUrl maxAttempts attempt tr)
  show ?case
  proof (cases "attempt \<le> maxAttempts")
    case False
    with "1.prems" show ?thesis
      by (auto simp: waitLoop_exhausted js_def)
  next
    case True
    obtain c tr1 where a: "waitAttempt_try plat token deploymentId tr = (c, tr1)"
      by (cases "waitAttempt_try plat token deploymentId tr")
    show ?thesis
    proof (cases c)
      case (Returned u)
      with "1.prems" True a show ?thesis
        by (simp add: waitLoop_Returned)
    next
      case (Thrown e)
      show ?thesis
      proof (cases "attempt = maxAttempts")
        case True
        with "1.prems" a Thrown show ?thesis
          by (auto simp: waitLoop_Thrown_last js_def split: if_splits)
      next
        case False
        with \<open>attempt \<le> maxAttempts\<close> have lt: "attempt < maxAttempts" by simp
        from "1.prems" have "waitLoop plat token deploymentId deploymentUrl maxAttempts (attempt + 1) tr1 = (Inl m, tr')"
          using waitLoop_Thrown_early [OF lt] a Thrown by simp
        with "1.IH"(1) [OF True a [symmetric] Thrown False] show ?thesis
          by simp
      qed
    next
      case Continued
      from "1.prems" have "waitLoop plat token deploymentId deploymentUrl maxAttempts (attempt + 1) tr1 = (Inl m, tr')"
        using a Continued True by (subst (asm) waitLoop.simps) simp
      with "1.IH"(2) [OF True a [symmetric] Continued] show ?thesis
        by simp
    next
      case Completed
      from "1.prems" have "waitLoop plat token deploymentId deploymentUrl maxAttempts (attempt + 1) tr1 = (Inl m, tr')"
        using a Completed True by (simp add: waitLoop_Completed)
      with "1.IH"(3) [OF True a [symmetric] Completed] show ?thesis
        by simp
    qed
  qed
qed

lemma waitForDeploymentReady_error_nonempty:
  "waitForDeploymentReady plat token deploymentId deploymentUrl maxAttempts tr = (Inl m, tr')
   \<Longrightarrow> m \<noteq> []"
  unfolding waitForDeploymentReady_def by (rule waitLoop_error_nonempty)

lemma createOrGetProject_error_nonempty:
  "createOrGetProject plat token name tr = (Inl m, tr') \<Longrightarrow> m \<noteq> []"
  by (auto simp: createOrGetProject_def js_def split: prod.splits sum.splits)

lemma createDeployment_error_nonempty:
  "createDeployment plat token now project siteName tr = (Inl m, tr') \<Longrightarrow> m \<noteq> []"
  by (auto simp: createDeployment_def js_def split: prod.splits sum.splits)

lemma POST_not_OPTIONS: "js ''POST'' \<noteq> js ''OPTIONS''"
  by (simp add: js_def)

lemma handler_POST:
  assumes "reqMethod req = js ''POST''"
  shows "handler plat token uni errs now req
         = (case handler_try plat token uni errs now req of
              (Inl m, tr) \<Rightarrow>
                (respond 500 (Failure (orElse (Some m) (js ''Unknown deployment error occurred''))), tr)
            | (Inr r, tr) \<Rightarrow> (r, tr))"
  using assms by (simp add: handler_def POST_not_OPTIONS)

lemma handler_v2_POST:
  assumes "reqMethod req = js ''POST''"
  shows "handler_v2 plat token uni errs now req
         = (case handler_v2_try plat token uni errs now req of
              (Inl m, tr) \<Rightarrow> (respond 500 (Failure m), tr)
            | (Inr r, tr) \<Rightarrow> (r, tr))"
  using assms by (simp add: handler_v2_def POST_not_OPTIONS)

subsection \<open>The first variant, check by check\<close>



lemma handler_no_body:
  assumes "reqMethod req = js ''POST''" and "truthy token"
    and "includes_js (orElse (contentType req) []) (js ''multipart/form-data'')"
    and "reqBody req = None"
  shows "handler plat token uni errs now req
         = (respond 500
              (Failure (orElse (Some (cannotDestructure errs))
                          (js ''Unknown deployment error occurred''))), [])"
  using assms by (simp add: handler_POST handler_try_def)


lemma handler_projectName_not_a_string:
  assumes "reqMethod req = js ''POST''" and "truthy token"
    and "includes_js (orElse (contentType req) []) (js ''multipart/form-data'')"
    and "reqBody req = Some b" and "body_projectName b = OtherValue True r"
  shows "handler plat token uni errs now req
         = (respond 500
              (Failure (orElse (Some (notAFunction errs))
                          (js ''Unknown deployment error occurred''))), [])"
  using assms by (simp add: handler_POST handler_try_def truthyProp_def)

lemma handler_project_fails:
  assumes "reqMethod req = js ''POST''" and "truthy token"
    and "includes_js (orElse (contentType req) []) (js ''multipart/form-data'')"
    and "reqBody req = Some b" and "body_projectName b = StringValue name" and "name \<noteq> []"
    and "createOrGetProject plat token (cleanProjectName uni name) [] = (Inl m, tr1)"
  shows "handler plat token uni errs now req = (respond 500 (Failure m), tr1)"
proof -
  have "m \<noteq> []"
    using assms(7) by (rule createOrGetProject_error_nonempty)
  then show ?thesis
    using assms
    by (simp add: handler_POST handler_try_def truthyProp_def orElse_def Let_def)
qed

lemma handler_deployment_fails:
  assumes "reqMethod req = js ''POST''" and "truthy token"
    and "includes_js (orElse (contentType req) []) (js ''multipart/form-data'')"
    and "reqBody req = Some b" and "body_projectName b = StringValue name" and "name \<noteq> []"
    and "createOrGetProject plat token (cleanProjectName uni name) [] = (Inr project, tr1)"
    and "createDeployment plat token now project
           (render (orElseProp (body_siteName b) (cleanProjectName uni name))) tr1 = (Inl m, tr2)"
  shows "handler plat token uni errs now req = (respond 500 (Failure m), tr2)"
proof -
  have "m \<noteq> []"
    using assms(8) by (rule createDeployment_error_nonempty)
  then show ?thesis
    using assms
    by (simp add: handler_POST handler_try_def truthyProp_def Let_def)
       (simp add: orElse_def)
qed

lemma handler_wait_fails:
  assumes "reqMethod req = js ''POST''" and "truthy token"
    and "includes_js (orElse (contentType req) []) (js ''multipart/form-data'')"
    and "reqBody req = Some b" and "body_projectName b = StringValue name" and "name \<noteq> []"
    and "createOrGetProject plat token (cleanProjectName uni name) [] = (Inr project, tr1)"
    and "createDeployment plat token now project
           (render (orElseProp (body_siteName b) (cleanProjectName uni name))) tr1
         = (Inr deployment, tr2)"
    and "waitForDeploymentReady plat token (deployment ''id'') (deployment ''url'') 30 tr2
         = (Inl m, tr3)"
  shows "handler plat token uni errs now req = (respond 500 (Failure m), tr3)"
proof -
  have "m \<noteq> []"
    using assms(9) by (rule waitForDeploymentReady_error_nonempty)
  then show ?thesis
    using assms
    by (simp add: handler_POST handler_try_def truthyProp_def Let_def)
       (simp add: orElse_def)
qed

lemma handler_succeeds:
  assumes "reqMethod req = js ''POST''" and "truthy token"
    and "includes_js (orElse (contentType req) []) (js ''multipart/form-data'')"
    and "reqBody req = Some b" and "body_projectName b = StringValue name" and "name \<noteq> []"
    and "createOrGetProject plat token (cleanProjectName uni name) [] = (Inr project, tr1)"
    and "createDeployment plat token now project
           (render (orElseProp (body_siteName b) (cleanProjectName uni name))) tr1
         = (Inr deployment, tr2)"
    and "waitForDeploymentReady plat token (deployment ''id'') (deployment ''url'') 30 tr2
         = (Inr finalUrl, tr3)"
  shows "handler plat token uni errs now req
         = (respond 200 (Success finalUrl (project ''id'') (deployment ''id'')
                           (cleanProjectName uni name)
                           (orElseProp (body_siteName b) (cleanProjectName uni name))), tr3)"
  using assms
  by (simp add: handler_POST handler_try_def truthyProp_def Let_def)

subsection \<open>The second variant, check by check\<close>

lemma handler_v2_no_body:
  assumes "reqMethod req = js ''POST''" and "reqBody req = None"
  shows "handler_v2 plat token uni errs now req
         = (respond 500 (Failure (cannotDestructure errs)), [])"
  using assms by (simp add: handler_v2_POST handler_v2_try_def)



lemma handler_v2_projectName_not_a_string:
  assumes "reqMethod req = js ''POST''" and "truthy token"
    and "reqBody req = Some b" and "body_projectName b = OtherValue True r"
  shows "handler_v2 plat token uni errs now req = (respond 500 (Failure (notAFunction errs)), [])"
  using assms by (simp add: handler_v2_POST handler_v2_try_def truthyProp_def)


lemma handler_v2_project_fails:
  assumes "reqMethod req = js ''POST''" and "truthy token"
    and "reqBody req = Some b" and "body_projectName b = StringValue name" and "name \<noteq> []"
    and "createOrGetProject_v2 plat token (cleanProjectName uni name) [] = (Inl m, tr1)"
  shows "handler_v2 plat token uni errs now req = (respond 500 (Failure m), tr1)"
  using assms
  by (simp add: handler_v2_POST handler_v2_try_def truthyProp_def Let_def)

lemma handler_v2_deployment_fails:
  assumes "reqMethod req = js ''POST''" and "truthy token"
    and "reqBody req = Some b" and "body_projectName b = StringValue name" and "name \<noteq> []"
    and "createOrGetProject_v2 plat token (cleanProjectName uni name) [] = (Inr project, tr1)"
    and "createDeployment_v2 plat token now project
           (render (orElseProp (body_siteName b) (cleanProjectName uni name))) tr1 = (Inl m, tr2)"
  shows "handler_v2 plat token uni errs now req = (respond 500 (Failure m), tr2)"
  using assms
  by (simp add: handler_v2_POST handler_v2_try_def truthyProp_def Let_def)

subsection \<open>A deployment that fails while the handler waits\<close>

text \<open>
  When the platform reports \<open>ERROR\<close> at every poll and a fallback URL was passed, every
  iteration throws into its own \<open>catch\<close>, and the last one returns the fallback URL.
\<close>

lemma waitLoop_all_ERROR:
  assumes "\<And>n. k \<le> n \<Longrightarrow> \<exists>r d. plat n (statusRequest token deploymentId) = Responded r \<and> ok r
                    \<and> json_of r = Inr d \<and> d ''readyState'' = Some (js ''ERROR'')"
    and "k \<le> fetchCount tr" and "attempt \<le> maxAttempts" and "truthy deploymentUrl"
  shows "waitLoop plat token deploymentId deploymentUrl maxAttempts attempt tr
         = (Inr (js ''https://'' @ tpl deploymentUrl),
            tr @ replicate (maxAttempts + 1 - attempt) (Fetch (statusRequest token deploymentId)))"
  using assms(2,3)
proof (induction "maxAttempts - attempt" arbitrary: attempt tr)
  case 0
  let ?q = "statusRequest token deploymentId"
  from 0 have eq: "attempt = maxAttempts" by simp
  from assms(1) [OF "0.prems"(1)] obtain r d where
    rd: "plat (fetchCount tr) ?q = Responded r" "ok r" "json_of r = Inr d"
        "d ''readyState'' = Some (js ''ERROR'')"
    by blast
  show ?case
    using waitLoop_ERROR_last [where plat = plat and tr = tr and r = r and d = d
            and deploymentUrl = deploymentUrl and maxAttempts = maxAttempts] rd assms(4)
    by (simp add: eq)
next
  case (Suc j)
  let ?q = "statusRequest token deploymentId"
  from Suc.hyps(2) have lt: "attempt < maxAttempts" by simp
  from assms(1) [OF Suc.prems(1)] obtain r d where
    rd: "plat (fetchCount tr) ?q = Responded r" "ok r" "json_of r = Inr d"
        "d ''readyState'' = Some (js ''ERROR'')"
    by blast
  have step: "waitLoop plat token deploymentId deploymentUrl maxAttempts attempt tr
              = waitLoop plat token deploymentId deploymentUrl maxAttempts (attempt + 1)
                  (tr @ [Fetch ?q])"
    using waitLoop_ERROR_continues [where plat = plat and tr = tr and r = r and d = d
            and deploymentUrl = deploymentUrl and maxAttempts = maxAttempts
            and attempt = attempt] lt rd
    by simp
  have j: "j = maxAttempts - (attempt + 1)"
    using Suc.hyps(2) by simp
  have k: "k \<le> fetchCount (tr @ [Fetch ?q])"
    using Suc.prems(1) by (simp add: fetchCount_snoc_Fetch)
  have le: "attempt + 1 \<le> maxAttempts"
    using lt by simp
  have r: "maxAttempts + 1 - attempt = Suc (maxAttempts + 1 - (attempt + 1))"
    using lt by simp
  show ?case
    unfolding step Suc.hyps(1) [OF j k le] r
    by (simp add: replicate_app_Cons_same)
qed

lemma erroring_polls:
  "2 \<le> n \<Longrightarrow> \<exists>r d. erroring n q = Responded r \<and> ok r \<and> json_of r = Inr d
                  \<and> d ''readyState'' = Some (js ''ERROR'')"
  by (simp add: erroring_def errored_def jsonResponse_def ok_def)

text \<open>
  C9 (the code against the claim): a \<open>POST\<close> request with a valid name, for which the
  platform creates the project and the deployment and then reports the deployment in
  state \<open>ERROR\<close> at every one of the 30 polls, is a failure arising in polling. The
  first variant answers it with status 200 and the success body, with the URL of the
  failed deployment, not with \<^verbatim>\<open>{success: false, error}\<close>: the error thrown for \<open>ERROR\<close>
  never leaves \<open>waitForDeploymentReady\<close>.
\<close>

theorem handler_ERROR_deployment_answers_success:
  "handler erroring (Some (js ''t0k3n'')) lowerLatin1 nodeErrors (js ''2/11/2026, 10.35.00'')
     (multipartPost (StringValue (js ''My Site'')))
   = (respond 200
        (Success (js ''https://my-site-abc.platform.dev'') (Some (js ''prj_1''))
           (Some (js ''dep1'')) (js ''my-site'') (StringValue (js ''my-site''))),
      [Fetch (createProjectRequest (Some (js ''t0k3n'')) (js ''my-site'')),
       Fetch (deploymentRequest (Some (js ''t0k3n''))
                (deploymentPayload (map_of [(''id'', js ''prj_1''), (''name'', js ''my-site'')])
                   (htmlContent (js ''my-site'')
                      (map_of [(''id'', js ''prj_1''), (''name'', js ''my-site'')])
                      (js ''2/11/2026, 10.35.00''))))]
      @ replicate 30 (Fetch (statusRequest (Some (js ''t0k3n'')) (Some (js ''dep1'')))))"
proof -
  let ?now = "js ''2/11/2026, 10.35.00''"
  let ?req = "multipartPost (StringValue (js ''My Site''))"
  let ?b = "\<lparr> body_projectName = StringValue (js ''My Site''), body_siteName = Absent \<rparr>"
  let ?tok = "Some (js ''t0k3n'')"
  let ?project = "map_of [(''id'', js ''prj_1''), (''name'', js ''my-site'')]"
  let ?deployment = "map_of [(''id'', js ''dep1''), (''url'', js ''my-site-abc.platform.dev'')]"
  let ?tr1 = "[Fetch (createProjectRequest ?tok (js ''my-site''))]"
  let ?tr2 = "?tr1 @ [Fetch (deploymentRequest ?tok
                        (deploymentPayload ?project (htmlContent (js ''my-site'') ?project ?now)))]"
  have post: "reqMethod ?req = js ''POST''"
    by (simp add: multipartPost_def)
  have inc: "includes_js (orElse (contentType ?req) []) (js ''multipart/form-data'')"
    by (simp add: multipartPost_def orElse_def js_def)
  have body: "reqBody ?req = Some ?b"
    by (simp add: multipartPost_def)
  have name: "body_projectName ?b = StringValue (js ''My Site'')" "js ''My Site'' \<noteq> []"
    by (simp_all add: js_def)
  have clean: "cleanProjectName lowerLatin1 (js ''My Site'') = js ''my-site''"
    by (simp add: js_def toLowerCase_def lowerAscii_def replaceInvalid_def validChar_def
          cleanProjectName_def substring_from_0)
  have site: "orElseProp (body_siteName ?b) (js ''my-site'') = StringValue (js ''my-site'')"
    by (simp add: orElseProp_def truthyProp_def)
  have tok: "truthy ?tok"
    by (simp add: truthy_def js_def)
  have p: "createOrGetProject erroring ?tok (js ''my-site'') [] = (Inr ?project, ?tr1)"
    by (simp add: createOrGetProject_def createOrGetProject_try_def fetch_def erroring_def
          projectFetched_def jsonResponse_def ok_def fetchCount_def)
  have d: "createDeployment erroring ?tok ?now ?project (js ''my-site'') ?tr1
           = (Inr ?deployment, ?tr2)"
    by (simp add: createDeployment_def createDeployment_try_def fetch_def erroring_def
          deploymentCreated_def jsonResponse_def ok_def fetchCount_def)
  have url: "?deployment ''url'' = Some (js ''my-site-abc.platform.dev'')"
    "?deployment ''id'' = Some (js ''dep1'')"
    by simp_all
  have w: "waitForDeploymentReady erroring ?tok (?deployment ''id'') (?deployment ''url'') 30 ?tr2
           = (Inr (js ''https://my-site-abc.platform.dev''),
              ?tr2 @ replicate 30 (Fetch (statusRequest ?tok (Some (js ''dep1'')))))"
    unfolding url waitForDeploymentReady_def
    using waitLoop_all_ERROR [where plat = erroring and k = 2 and tr = ?tr2 and attempt = 1
            and maxAttempts = 30 and token = ?tok and deploymentId = "Some (js ''dep1'')"
            and deploymentUrl = "Some (js ''my-site-abc.platform.dev'')"]
      erroring_polls
    by (simp add: fetchCount_def truthy_def tpl_def js_def)
  show ?thesis
    using handler_succeeds [OF post tok inc body name, where uni = lowerLatin1 and plat = erroring
            and now = ?now and project = ?project and deployment = ?deployment
            and errs = nodeErrors]
      p d w clean site
    by (simp add: render_def)
qed





end
